theory Spec2Isabelle
  imports Main
begin

section \<open>Postal code validation\<close>

text \<open>
  Go strings are byte sequences; they are modelled as \<open>string\<close> (a list of 8-bit
  characters), so a code point beyond ASCII is the several bytes of its UTF-8 form.

  Both validators call \<^verbatim>\<open>regexp.MatchString(`^\d{8}$`, s)\<close>. The pattern is modelled
  by its syntax tree, in the operators of Go's \<^verbatim>\<open>regexp/syntax\<close> package, and matched
  by a backtracking matcher that returns, for a start position, every position at which
  a match of the expression can end.  In Go's RE2 syntax \<^verbatim>\<open>\d\<close> is the class
  \<^verbatim>\<open>[0-9]\<close> and, without the \<^verbatim>\<open>m\<close> flag, \<^verbatim>\<open>^\<close> and \<^verbatim>\<open>$\<close> hold only at the
  very beginning and the very end of the text.  Go matches on runes; the only class of
  this pattern is ASCII, and an ASCII byte is always a rune of its own, so matching on
  bytes gives the same verdict.
\<close>

datatype regexp =
    EmptyMatch
  | BeginText
  | EndText
  | CharClass "(nat \<times> nat) list"
  | Concat regexp regexp

definition in_class :: "(nat \<times> nat) list \<Rightarrow> char \<Rightarrow> bool" where
  "in_class ranges c = list_ex (\<lambda>(lo, hi). lo \<le> of_char c \<and> of_char c \<le> hi) ranges"

fun ends :: "regexp \<Rightarrow> string \<Rightarrow> nat \<Rightarrow> nat list" where
  "ends EmptyMatch s i = [i]"
| "ends BeginText s i = (if i = 0 then [i] else [])"
| "ends EndText s i = (if i = length s then [i] else [])"
| "ends (CharClass ranges) s i =
     (if i < length s \<and> in_class ranges (s ! i) then [Suc i] else [])"
| "ends (Concat r1 r2) s i = concat (map (ends r2 s) (ends r1 s i))"

text \<open>\<^verbatim>\<open>r{n}\<close>: exactly \<open>n\<close> copies of \<open>r\<close> in sequence.\<close>

fun Repeat :: "nat \<Rightarrow> regexp \<Rightarrow> regexp" where
  "Repeat 0 r = EmptyMatch"
| "Repeat (Suc n) r = Concat r (Repeat n r)"

text \<open>
  \<^verbatim>\<open>regexp.MatchString\<close> searches: it reports whether the expression matches starting
  at some position of the text. Its error result (a pattern that does not compile) is
  discarded by both callers and cannot occur for the constant pattern.
\<close>

definition MatchString :: "regexp \<Rightarrow> string \<Rightarrow> bool" where
  "MatchString re s = list_ex (\<lambda>i. ends re s i \<noteq> []) [0..<Suc (length s)]"

definition perl_d :: regexp where
  "perl_d = CharClass [(48, 57)]"

definition cep_pattern :: regexp where
  "cep_pattern = Concat BeginText (Concat (Repeat 8 perl_d) EndText)"

text \<open>\<^verbatim>\<open>utils.IsValidCEP\<close> (commons.go).\<close>

definition IsValidCEP :: "string \<Rightarrow> bool" where
  "IsValidCEP cep = MatchString cep_pattern cep"

text \<open>
  \<^verbatim>\<open>strings.ReplaceAll(s, old, new)\<close>: every non-overlapping occurrence of \<open>old\<close>,
  found from the left, is replaced by \<open>new\<close>. For an empty \<open>old\<close> Go inserts \<open>new\<close>
  before every rune and at the end; that branch is written here per byte, which is
  Go's result on ASCII text, and the program never takes it (its two calls pass
  \<^verbatim>\<open>"-"\<close> and \<^verbatim>\<open>" "\<close>).
\<close>

function ReplaceAll :: "string \<Rightarrow> string \<Rightarrow> string \<Rightarrow> string" where
  "ReplaceAll s old new =
     (if old = [] then new @ concat (map (\<lambda>c. c # new) s)
      else if s = [] then []
      else if take (length old) s = old
        then new @ ReplaceAll (drop (length old) s) old new
      else hd s # ReplaceAll (tl s) old new)"
  by pat_completeness auto
termination
  by (relation "measure (\<lambda>(s, old, new). length s)") auto

text \<open>The gateway's \<^verbatim>\<open>validateCEP\<close> (service-input/main.go).\<close>

definition validateCEP :: "string \<Rightarrow> bool" where
  "validateCEP cep =
     (let cleanCEP = ReplaceAll cep ''-'' '''';
          cleanCEP = ReplaceAll cleanCEP '' '' ''''
      in MatchString cep_pattern cleanCEP)"

text \<open>The set of strings the specification describes: exactly eight ASCII decimal digits.\<close>

definition ascii_digit :: "char \<Rightarrow> bool" where
  "ascii_digit c = (c \<in> set ''0123456789'')"

definition eight_digits :: "string \<Rightarrow> bool" where
  "eight_digits s = (length s = 8 \<and> list_all ascii_digit s)"

section \<open>Binary64 arithmetic\<close>

text \<open>
  Go's \<^verbatim>\<open>float64\<close> is IEEE 754 binary64. A finite value is kept as sign, significand
  and exponent: \<open>Finite s m e\<close> is \<open>(-1)\<^sup>s \<times> m \<times> 2\<^sup>e\<close>, in the one form in which either
  \<open>2\<^sup>5\<^sup>2 \<le> m < 2\<^sup>5\<^sup>3\<close> and \<open>-1074 \<le> e \<le> 971\<close> (normal numbers), or \<open>m < 2\<^sup>5\<^sup>2\<close> and
  \<open>e = -1074\<close> (zeros and subnormal numbers), so that equal floats are equal terms.
  The payload of a NaN is not kept.
\<close>

datatype float64 = Finite bool int int | Infinity bool | NaN

definition IsFinite :: "float64 \<Rightarrow> bool" where
  "IsFinite x = (case x of Finite s m e \<Rightarrow> True | Infinity s \<Rightarrow> False | NaN \<Rightarrow> False)"

text \<open>The number of binary digits of a natural number \<open>m\<close>.\<close>

function bit_length :: "int \<Rightarrow> nat" where
  "bit_length m = (if m \<le> 0 then 0 else Suc (bit_length (m div 2)))"
  by pat_completeness auto
termination
  by (relation "measure nat") auto

declare bit_length.simps [simp del]

text \<open>\<open>m / 2\<^sup>k\<close> rounded to the nearest integer, a tie going to the even one.\<close>

definition shift_right_even :: "int \<Rightarrow> nat \<Rightarrow> int" where
  "shift_right_even m k =
     (let q = m div 2 ^ k; r = m mod 2 ^ k
      in if 2 * r > 2 ^ k \<or> (2 * r = 2 ^ k \<and> odd q) then q + 1 else q)"

text \<open>
  The binary64 nearest to \<open>(-1)\<^sup>s \<times> m \<times> 2\<^sup>e\<close> for a natural number \<open>m\<close> and an integer \<open>e\<close>
  (round to nearest, ties to even, the rounding mode Go uses): the last kept binary
  digit has weight \<open>2\<^sup>e\<^sup>'\<close>, which leaves 53 digits or stops at the subnormal weight
  \<open>2\<^sup>-\<^sup>1\<^sup>0\<^sup>7\<^sup>4\<close>; a significand rounded up to \<open>2\<^sup>5\<^sup>3\<close> moves to the next exponent; a result
  beyond the largest exponent is an infinity.
\<close>

definition round64 :: "bool \<Rightarrow> int \<Rightarrow> int \<Rightarrow> float64" where
  "round64 s m e =
     (if m \<le> 0 then Finite s 0 (- 1074)
      else
        let e' = max (e + int (bit_length m) - 53) (- 1074);
            m' = (if e' \<le> e then m * 2 ^ nat (e - e') else shift_right_even m (nat (e' - e)));
            e'' = (if m' = 2 ^ 53 then e' + 1 else e');
            m'' = (if m' = 2 ^ 53 then 2 ^ 52 else m')
        in if e'' > 971 then Infinity s else Finite s m'' e'')"

text \<open>Conversion of an integer constant, and the constants of the program. \<open>float64_1_8\<close>
  is the binary64 that the constant \<^verbatim>\<open>1.8\<close> denotes, \<open>8106479329266893 \<times> 2\<^sup>-\<^sup>5\<^sup>2\<close>.\<close>

definition float64_of_int :: "int \<Rightarrow> float64" where
  "float64_of_int i = round64 (i < 0) \<bar>i\<bar> 0"

definition float64_1_8 :: float64 where
  "float64_1_8 = Finite False 8106479329266893 (- 52)"

instantiation float64 :: zero
begin

definition zero_float64 :: float64 where
  "zero_float64 = Finite False 0 (- 1074)"

instance ..

end

text \<open>The integer \<open>(-1)\<^sup>s \<times> m\<close>.\<close>

definition signed :: "bool \<Rightarrow> int \<Rightarrow> int" where
  "signed s m = (if s then - m else m)"

text \<open>
  \<^verbatim>\<open>x * y\<close>: the exact product, rounded once. \<^verbatim>\<open>x + y\<close>: the exact sum, rounded once;
  an exact sum of zero is \<open>-0\<close> only if both operands are \<open>-0\<close>.
\<close>

fun float64_mul :: "float64 \<Rightarrow> float64 \<Rightarrow> float64" where
  "float64_mul NaN y = NaN"
| "float64_mul x NaN = NaN"
| "float64_mul (Infinity s1) (Infinity s2) = Infinity (s1 \<noteq> s2)"
| "float64_mul (Infinity s1) (Finite s2 m2 e2) = (if m2 = 0 then NaN else Infinity (s1 \<noteq> s2))"
| "float64_mul (Finite s1 m1 e1) (Infinity s2) = (if m1 = 0 then NaN else Infinity (s1 \<noteq> s2))"
| "float64_mul (Finite s1 m1 e1) (Finite s2 m2 e2) = round64 (s1 \<noteq> s2) (m1 * m2) (e1 + e2)"

definition exact_sum :: "bool \<Rightarrow> int \<Rightarrow> int \<Rightarrow> bool \<Rightarrow> int \<Rightarrow> int \<Rightarrow> float64" where
  "exact_sum s1 m1 e1 s2 m2 e2 =
     (let e = min e1 e2;
          c = signed s1 (m1 * 2 ^ nat (e1 - e)) + signed s2 (m2 * 2 ^ nat (e2 - e))
      in if c = 0 then Finite (s1 \<and> s2) 0 (- 1074) else round64 (c < 0) \<bar>c\<bar> e)"

fun float64_add :: "float64 \<Rightarrow> float64 \<Rightarrow> float64" where
  "float64_add NaN y = NaN"
| "float64_add x NaN = NaN"
| "float64_add (Infinity s1) (Infinity s2) = (if s1 = s2 then Infinity s1 else NaN)"
| "float64_add (Infinity s1) (Finite s2 m2 e2) = Infinity s1"
| "float64_add (Finite s1 m1 e1) (Infinity s2) = Infinity s2"
| "float64_add (Finite s1 m1 e1) (Finite s2 m2 e2) = exact_sum s1 m1 e1 s2 m2 e2"

text \<open>
  The fused multiply-add \<^verbatim>\<open>x*y + z\<close>: the exact product plus \<open>z\<close>, rounded once.
\<close>

fun float64_fma :: "float64 \<Rightarrow> float64 \<Rightarrow> float64 \<Rightarrow> float64" where
  "float64_fma (Finite s1 m1 e1) (Finite s2 m2 e2) (Finite s3 m3 e3) =
     exact_sum (s1 \<noteq> s2) (m1 * m2) (e1 + e2) s3 m3 e3"
| "float64_fma (Finite s1 m1 e1) (Finite s2 m2 e2) z = z"
| "float64_fma x y z = float64_add (float64_mul x y) z"

section \<open>Unit conversion\<close>

text \<open>\<^verbatim>\<open>models.Temperature\<close>.\<close>

record Temperature =
  City :: string
  TempC :: float64
  TempF :: float64
  TempK :: float64

text \<open>
  \<^verbatim>\<open>utils.ConvertTemperatures\<close> (commons.go); the composite literal leaves \<open>City\<close> at
  its zero value. Go lets a compiler fuse \<^verbatim>\<open>x*y + z\<close> into one operation with one
  rounding, and the Go compiler does so on some targets (arm64 among them) and not on
  others (amd64 by default); \<open>fused\<close> says which kind of target the program was
  compiled for.
\<close>

definition ConvertTemperatures :: "bool \<Rightarrow> float64 \<Rightarrow> Temperature" where
  "ConvertTemperatures fused celsius =
     (let fahrenheit = (if fused then float64_fma celsius float64_1_8 (float64_of_int 32)
                        else float64_add (float64_mul celsius float64_1_8) (float64_of_int 32));
          kelvin = float64_add celsius (float64_of_int 273)
      in \<lparr> City = '''', TempC = celsius, TempF = fahrenheit, TempK = kelvin \<rparr>)"

section \<open>Errors, HTTP values and the environment\<close>

text \<open>
  A Go \<^verbatim>\<open>error\<close> built by the program is kept as the \<^verbatim>\<open>fmt.Errorf\<close> call that
  made it: the format string and its one argument, if any. Errors made by the libraries
  (transport, URL parsing, JSON decoding) are arbitrary values of the same type, supplied
  by the environment.
\<close>

datatype error =
    Errorf string
  | Errorf_d string int
  | Errorf_w string error

text \<open>
  An \<^verbatim>\<open>io.Reader\<close> that has been filled by the peer: the bytes it delivers, and the
  error (if any) that ends the stream instead of a clean end of file.
\<close>

datatype Reader = Reader string "error option"

definition ReadAll :: "Reader \<Rightarrow> error + string" where
  "ReadAll rd = (case rd of Reader bytes None \<Rightarrow> Inr bytes | Reader bytes (Some err) \<Rightarrow> Inl err)"

text \<open>An outbound \<^verbatim>\<open>http.Request\<close> and the \<^verbatim>\<open>http.Response\<close> of the client.\<close>

record Request =
  Method :: string
  URL :: string
  Header :: "(string \<times> string) list"

record Response =
  StatusCode :: int
  Status :: string
  Body :: Reader

text \<open>\<^verbatim>\<open>models.ViaCEP\<close> and \<^verbatim>\<open>models.WeatherAPI\<close> (the anonymous struct \<^verbatim>\<open>Current\<close> has
  the one field \<^verbatim>\<open>TempC\<close>, written here as one flattened field).\<close>

record ViaCEP =
  Localidade :: string
  Erro :: bool

record WeatherAPI =
  Current_TempC :: float64

text \<open>The gateway's \<^verbatim>\<open>CEPRequest\<close> and \<^verbatim>\<open>ErrorResponse\<close>.\<close>

record CEPRequest =
  CEP :: string

record ErrorResponse =
  Message :: string

text \<open>
  Everything outside the program that its result depends on. The process
  environment, the network and the library functions whose code is not part of the
  repository are parameters, so that every theorem holds for all of them:
  \<^item> \<open>Getenv\<close>: \<^verbatim>\<open>os.Getenv\<close>;
  \<^item> \<open>url_Parse\<close>: the error of parsing the URL, the one way
    \<^verbatim>\<open>http.NewRequestWithContext\<close> can fail for the method \<^verbatim>\<open>GET\<close> and a non-nil context;
  \<^item> \<open>RoundTrip\<close>: what \<^verbatim>\<open>client.Do\<close> yields for a request: a transport error
    (which includes cancellation of the request's context) or the provider's response;
  \<^item> \<open>QueryEscape\<close>: \<^verbatim>\<open>url.QueryEscape\<close>;
  \<^item> \<open>Decode_ViaCEP\<close>, \<open>Decode_WeatherAPI\<close>, \<open>Decode_CEPRequest\<close>:
    \<^verbatim>\<open>json.NewDecoder(body).Decode(&v)\<close> on a variable \<open>v\<close> holding the given value:
    an error, or the value of \<open>v\<close> afterwards. Go's decoder assigns the fields whose
    keys are present and leaves every other field as it was;
  \<^item> \<open>Encode_Temperature\<close>: the bytes that \<^verbatim>\<open>encoding/json\<close> produces for a
    \<^verbatim>\<open>models.Temperature\<close> whose three numbers are finite;
  \<^item> \<open>FMA\<close>: whether the program was compiled for a target on which the compiler
    fuses \<^verbatim>\<open>x*y + z\<close>.
\<close>

record world =
  Getenv :: "string \<Rightarrow> string"
  url_Parse :: "string \<Rightarrow> error option"
  RoundTrip :: "Request \<Rightarrow> error + Response"
  QueryEscape :: "string \<Rightarrow> string"
  Decode_ViaCEP :: "Reader \<Rightarrow> ViaCEP \<Rightarrow> error + ViaCEP"
  Decode_WeatherAPI :: "Reader \<Rightarrow> WeatherAPI \<Rightarrow> error + WeatherAPI"
  Decode_CEPRequest :: "Reader \<Rightarrow> CEPRequest \<Rightarrow> error + CEPRequest"
  Encode_Temperature :: "Temperature \<Rightarrow> string"
  FMA :: bool

definition NewRequestWithContext :: "world \<Rightarrow> string \<Rightarrow> string \<Rightarrow> error + Request" where
  "NewRequestWithContext w method url =
     (case url_Parse w url of
        Some err \<Rightarrow> Inl err
      | None \<Rightarrow> Inr \<lparr> Method = method, URL = url, Header = [] \<rparr>)"

text \<open>
  The one effect the claims observe besides the response is the sequence of requests
  handed to the network. \<open>Do\<close> appends the request to that log and returns what the
  environment answers. \<^verbatim>\<open>http.Get\<close> builds the request and calls \<open>Do\<close>.
  The \<^verbatim>\<open>fmt.Println\<close> lines of the handlers write to standard output only and are
  left out.
\<close>

definition Do :: "world \<Rightarrow> Request \<Rightarrow> Request list \<Rightarrow> (error + Response) \<times> Request list" where
  "Do w req sent = (RoundTrip w req, sent @ [req])"

definition http_Get :: "world \<Rightarrow> string \<Rightarrow> Request list \<Rightarrow> (error + Response) \<times> Request list" where
  "http_Get w url sent =
     (case NewRequestWithContext w ''GET'' url of
        Inl err \<Rightarrow> (Inl err, sent)
      | Inr req \<Rightarrow> Do w req sent)"

definition StatusOK :: int where "StatusOK = 200"
definition StatusNotFound :: int where "StatusNotFound = 404"
definition StatusUnprocessableEntity :: int where "StatusUnprocessableEntity = 422"
definition StatusInternalServerError :: int where "StatusInternalServerError = 500"

text \<open>\<^verbatim>\<open>fmt.Sprintf(UrlViaCEP, cep)\<close> and \<^verbatim>\<open>fmt.Sprintf(UrlWeatherAPI, apiKey, encodedCity)\<close>.\<close>

definition Sprintf_UrlViaCEP :: "string \<Rightarrow> string" where
  "Sprintf_UrlViaCEP cep = ''https://viacep.com.br/ws/'' @ cep @ ''/json/''"

definition Sprintf_UrlWeatherAPI :: "string \<Rightarrow> string \<Rightarrow> string" where
  "Sprintf_UrlWeatherAPI apiKey encodedCity =
     ''https://api.weatherapi.com/v1/current.json?key='' @ apiKey @ ''&q='' @ encodedCity"

section \<open>The response writer\<close>

text \<open>
  \<^verbatim>\<open>http.ResponseWriter\<close> as the recorder the tests read: status code, header map and
  body. The first \<^verbatim>\<open>WriteHeader\<close> fixes the status; \<^verbatim>\<open>Write\<close> appends to the body and
  fixes the status at its current value if none was written.
\<close>

record ResponseRecorder =
  Code :: int
  HeaderMap :: "(string \<times> string) list"
  Body_String :: string
  wroteHeader :: bool

definition NewRecorder :: ResponseRecorder where
  "NewRecorder = \<lparr> Code = 200, HeaderMap = [], Body_String = '''', wroteHeader = False \<rparr>"

definition WriteHeader :: "int \<Rightarrow> ResponseRecorder \<Rightarrow> ResponseRecorder" where
  "WriteHeader code rw = (if wroteHeader rw then rw else rw\<lparr> Code := code, wroteHeader := True \<rparr>)"

definition Write :: "string \<Rightarrow> ResponseRecorder \<Rightarrow> ResponseRecorder" where
  "Write bytes rw = rw\<lparr> Body_String := Body_String rw @ bytes, wroteHeader := True \<rparr>"

definition Header_Set :: "string \<Rightarrow> string \<Rightarrow> ResponseRecorder \<Rightarrow> ResponseRecorder" where
  "Header_Set key val rw =
     rw\<lparr> HeaderMap := (key, val) # filter (\<lambda>kv. fst kv \<noteq> key) (HeaderMap rw) \<rparr>"

text \<open>An inbound request, as far as the handlers read it: the headers, the parsed query
  string and the body.\<close>

record ServerRequest =
  in_Header :: "(string \<times> string) list"
  in_Query :: "(string \<times> string) list"
  in_Body :: Reader

text \<open>\<^verbatim>\<open>r.URL.Query().Get(key)\<close>: the first value of the key, or the empty string.\<close>

definition Query_Get :: "ServerRequest \<Rightarrow> string \<Rightarrow> string" where
  "Query_Get r key = (case map_of (in_Query r) key of None \<Rightarrow> '''' | Some v \<Rightarrow> v)"

text \<open>
  \<^verbatim>\<open>json.NewEncoder(w).Encode(temps)\<close>: the value is marshalled first and written to
  \<open>w\<close> only if that succeeds. Marshalling a \<^verbatim>\<open>float64\<close> that is an infinity or a
  NaN fails with an \<^verbatim>\<open>UnsupportedValueError\<close> (whose text names the value) and then
  nothing is written.
\<close>

definition supported :: "Temperature \<Rightarrow> bool" where
  "supported temps = (IsFinite (TempC temps) \<and> IsFinite (TempF temps) \<and> IsFinite (TempK temps))"

definition Encode :: "world \<Rightarrow> Temperature \<Rightarrow> ResponseRecorder \<Rightarrow> error option \<times> ResponseRecorder" where
  "Encode w temps rw =
     (if supported temps then (None, Write (Encode_Temperature w temps) rw)
      else (Some (Errorf ''json: unsupported value''), rw))"

section \<open>The orchestration service without tracing\<close>

text \<open>\<^verbatim>\<open>utils.GetCityFromCEP\<close> of service-orchestration/utils/viacep.go. A Go result
  \<^verbatim>\<open>("", err)\<close> is \<open>Inl err\<close>, a result \<^verbatim>\<open>(city, nil)\<close> is \<open>Inr city\<close>.\<close>

definition GetCityFromCEP :: "world \<Rightarrow> string \<Rightarrow> Request list \<Rightarrow> (error + string) \<times> Request list" where
  "GetCityFromCEP w cep sent =
     (let url = Sprintf_UrlViaCEP cep;
          (got, sent) = http_Get w url sent
      in case got of
           Inl err \<Rightarrow> (Inl err, sent)
         | Inr resp \<Rightarrow>
             (case Decode_ViaCEP w (Body resp) \<lparr> Localidade = '''', Erro = False \<rparr> of
                Inl err \<Rightarrow> (Inl err, sent)
              | Inr viaCEP \<Rightarrow>
                  if Erro viaCEP \<or> Localidade viaCEP = ''''
                  then (Inl (Errorf ''zipcode not found''), sent)
                  else (Inr (Localidade viaCEP), sent)))"

text \<open>\<^verbatim>\<open>utils.GetTemperature\<close> without tracing (the first file of part 001).\<close>

definition GetTemperature :: "world \<Rightarrow> string \<Rightarrow> Request list \<Rightarrow> (error + float64) \<times> Request list" where
  "GetTemperature w city sent =
     (let apiKey = Getenv w ''APIKeyWeather''
      in if apiKey = '''' then (Inl (Errorf ''API key is not set''), sent)
         else
           let encodedCity = QueryEscape w city;
               apiUrl = Sprintf_UrlWeatherAPI apiKey encodedCity;
               (got, sent) = http_Get w apiUrl sent
           in case got of
                Inl err \<Rightarrow> (Inl err, sent)
              | Inr resp \<Rightarrow>
                  if StatusCode resp \<noteq> StatusOK
                  then (Inl (Errorf_d ''weather API returned status: %d'' (StatusCode resp)), sent)
                  else
                    (case Decode_WeatherAPI w (Body resp) \<lparr> Current_TempC = 0 \<rparr> of
                       Inl err \<Rightarrow> (Inl err, sent)
                     | Inr weather \<Rightarrow> (Inr (Current_TempC weather), sent)))"

text \<open>\<^verbatim>\<open>handler.TemperatureHandler\<close> without tracing (the second file of part 003). The
  error that \<^verbatim>\<open>Encode\<close> returns is discarded, as in the source.\<close>

definition TemperatureHandler ::
  "world \<Rightarrow> ServerRequest \<Rightarrow> Request list \<Rightarrow> ResponseRecorder \<times> Request list" where
  "TemperatureHandler w r sent =
     (let rw = NewRecorder;
          cep = Query_Get r ''cep''
      in if \<not> IsValidCEP cep
         then
           (let rw = WriteHeader StatusUnprocessableEntity rw;
                rw = Write ''invalid zipcode'' rw
            in (rw, sent))
         else
           (case GetCityFromCEP w cep sent of
              (Inl err, sent) \<Rightarrow>
                (let rw = WriteHeader StatusNotFound rw;
                     rw = Write ''can not find zipcode'' rw
                 in (rw, sent))
            | (Inr city, sent) \<Rightarrow>
                (case GetTemperature w city sent of
                   (Inl err, sent) \<Rightarrow>
                     (let rw = WriteHeader StatusInternalServerError rw;
                          rw = Write ''error getting temperature'' rw
                      in (rw, sent))
                 | (Inr tempC, sent) \<Rightarrow>
                     (let temps = ConvertTemperatures (FMA w) tempC;
                          temps = (temps\<lparr> City := city \<rparr>);
                          rw = Header_Set ''Content-Type'' ''application/json'' rw;
                          rw = WriteHeader StatusOK rw;
                          rw = snd (Encode w temps rw)
                      in (rw, sent)))))"

section \<open>Tracing\<close>

text \<open>
  OpenTelemetry's span status codes and attributes, as the program builds them.
\<close>

datatype codes = codes_Unset | codes_Error | codes_Ok

datatype attribute =
    attribute_String string string
  | attribute_Int string int
  | attribute_Bool string bool
  | attribute_Float64 string float64

text \<open>
  The tracing backend is a capability handed to the program: \<open>'c\<close> is what a
  \<^verbatim>\<open>context.Context\<close> carries for tracing, \<open>'sp\<close> a span handle and \<open>'t\<close> the state of
  the backend (what has been recorded so far). In Go the span methods return nothing,
  so all they can do is change the backend's state; every one of them is an arbitrary
  function here, which includes a backend that fails to record anything.
  \<open>Extract\<close> is the propagator reading the inbound headers, \<open>Inject\<close> the headers it
  adds to an outbound request. Deriving a context with \<^verbatim>\<open>tracer.Start\<close> keeps the
  cancellation of its parent, so what a request's context means for the network stays
  part of \<open>RoundTrip\<close>.
\<close>

record ('c, 'sp, 't) tracing =
  Background :: 'c
  Extract :: "(string \<times> string) list \<Rightarrow> 'c"
  Inject :: "'c \<Rightarrow> (string \<times> string) list \<Rightarrow> (string \<times> string) list"
  Start :: "'c \<Rightarrow> string \<Rightarrow> 't \<Rightarrow> ('c \<times> 'sp) \<times> 't"
  SetAttributes :: "'sp \<Rightarrow> attribute list \<Rightarrow> 't \<Rightarrow> 't"
  SetStatus :: "'sp \<Rightarrow> codes \<Rightarrow> string \<Rightarrow> 't \<Rightarrow> 't"
  RecordError :: "'sp \<Rightarrow> error \<Rightarrow> 't \<Rightarrow> 't"
  End :: "'sp \<Rightarrow> 't \<Rightarrow> 't"

text \<open>Two backends to run the program with: one that records every operation in order,
  and one on which every operation is lost.\<close>

datatype span_event =
    Started nat string
  | Attributes nat "attribute list"
  | StatusSet nat codes string
  | ErrorRecorded nat error
  | Ended nat

definition recording :: "(nat list, nat, span_event list) tracing" where
  "recording =
     \<lparr> Background = [],
       Extract = (\<lambda>hdrs. []),
       Inject = (\<lambda>ctx hdrs. (''traceparent'', map (\<lambda>n. char_of n) ctx) # hdrs),
       Start = (\<lambda>ctx name t. ((length t # ctx, length t), t @ [Started (length t) name])),
       SetAttributes = (\<lambda>sp kvs t. t @ [Attributes sp kvs]),
       SetStatus = (\<lambda>sp c msg t. t @ [StatusSet sp c msg]),
       RecordError = (\<lambda>sp err t. t @ [ErrorRecorded sp err]),
       End = (\<lambda>sp t. t @ [Ended sp]) \<rparr>"

definition noop :: "(unit, unit, unit) tracing" where
  "noop =
     \<lparr> Background = (),
       Extract = (\<lambda>hdrs. ()),
       Inject = (\<lambda>ctx hdrs. hdrs),
       Start = (\<lambda>ctx name t. (((), ()), ())),
       SetAttributes = (\<lambda>sp kvs t. ()),
       SetStatus = (\<lambda>sp c msg t. ()),
       RecordError = (\<lambda>sp err t. ()),
       End = (\<lambda>sp t. ()) \<rparr>"

section \<open>The orchestration service with tracing\<close>

text \<open>
  The functions take the backend state and the log of requests sent so far and return
  both updated.

  \<^verbatim>\<open>utils.GetCityFromCEP(ctx, cep, span)\<close> (part 000).
\<close>

definition GetCityFromCEP_span ::
  "('c, 'sp, 't) tracing \<Rightarrow> world \<Rightarrow> 'c \<Rightarrow> string \<Rightarrow> 'sp \<Rightarrow> 't \<times> Request list
     \<Rightarrow> (error + string) \<times> ('t \<times> Request list)" where
  "GetCityFromCEP_span T w ctx cep sp st =
     (let t = fst st; sent = snd st;
          url = Sprintf_UrlViaCEP cep;
          t = SetAttributes T sp
                [attribute_String ''viacep.url'' url,
                 attribute_String ''viacep.cep'' cep,
                 attribute_String ''http.method'' ''GET''] t
      in case NewRequestWithContext w ''GET'' url of
           Inl err \<Rightarrow>
             (Inl err,
              (SetStatus T sp codes_Error ''failed to create HTTP request''
                 (RecordError T sp err t), sent))
         | Inr req \<Rightarrow>
             (case Do w req sent of
                (Inl err, sent) \<Rightarrow>
                  (Inl err,
                   (SetStatus T sp codes_Error ''HTTP request failed''
                      (RecordError T sp err t), sent))
              | (Inr resp, sent) \<Rightarrow>
                  (let t = SetAttributes T sp
                             [attribute_Int ''http.status_code'' (StatusCode resp),
                              attribute_String ''http.status'' (Status resp)] t
                   in if StatusCode resp \<noteq> StatusOK
                      then
                        (let err = Errorf_d ''ViaCEP API returned status: %d'' (StatusCode resp)
                         in (Inl err,
                             (SetStatus T sp codes_Error ''unexpected HTTP status code''
                                (RecordError T sp err t), sent)))
                      else
                        (case Decode_ViaCEP w (Body resp) \<lparr> Localidade = '''', Erro = False \<rparr> of
                           Inl err \<Rightarrow>
                             (Inl err,
                              (SetStatus T sp codes_Error ''failed to decode JSON response''
                                 (RecordError T sp err t), sent))
                         | Inr viaCEP \<Rightarrow>
                             (let t = SetAttributes T sp
                                        [attribute_String ''viacep.localidade'' (Localidade viaCEP),
                                         attribute_Bool ''viacep.erro'' (Erro viaCEP)] t
                              in if Erro viaCEP \<or> Localidade viaCEP = ''''
                                 then
                                   (let err = Errorf ''can not find zipcode''
                                    in (Inl err,
                                        (SetStatus T sp codes_Error ''can not find zipcodeP''
                                           (RecordError T sp err t), sent)))
                                 else
                                   (Inr (Localidade viaCEP),
                                    (SetStatus T sp codes_Ok
                                       ''city successfully retrieved from ViaCEP'' t, sent)))))))"

text \<open>\<^verbatim>\<open>utils.GetTemperature(ctx, city, span)\<close> (the second file of part 001).\<close>

definition GetTemperature_span ::
  "('c, 'sp, 't) tracing \<Rightarrow> world \<Rightarrow> 'c \<Rightarrow> string \<Rightarrow> 'sp \<Rightarrow> 't \<times> Request list
     \<Rightarrow> (error + float64) \<times> ('t \<times> Request list)" where
  "GetTemperature_span T w ctx city sp st =
     (let t = fst st; sent = snd st;
          apiKey = Getenv w ''APIKeyWeather''
      in if apiKey = ''''
         then
           (Inl (Errorf ''API key is not set''),
            (SetStatus T sp codes_Error ''API key is not set''
               (RecordError T sp (Errorf ''API key is not set'') t), sent))
         else
           (let encodedCity = QueryEscape w city;
                apiUrl = Sprintf_UrlWeatherAPI apiKey encodedCity
            in case NewRequestWithContext w ''GET'' apiUrl of
                 Inl err \<Rightarrow>
                   (Inl err,
                    (SetStatus T sp codes_Error ''failed to create request''
                       (RecordError T sp (Errorf_w ''failed to create request: %w'' err) t),
                     sent))
               | Inr req \<Rightarrow>
                   (case Do w req sent of
                      (Inl err, sent) \<Rightarrow>
                        (Inl err,
                         (SetStatus T sp codes_Error ''failed to get temperature''
                            (RecordError T sp (Errorf_w ''failed to get temperature: %w'' err) t),
                          sent))
                    | (Inr resp, sent) \<Rightarrow>
                        if StatusCode resp \<noteq> StatusOK
                        then
                          (Inl (Errorf_d ''weather API returned status: %d'' (StatusCode resp)),
                           (SetStatus T sp codes_Error ''weather API returned error status''
                              (RecordError T sp
                                 (Errorf_d ''weather API returned status: %d'' (StatusCode resp)) t),
                            sent))
                        else
                          (case Decode_WeatherAPI w (Body resp) \<lparr> Current_TempC = 0 \<rparr> of
                             Inl err \<Rightarrow>
                               (Inl err,
                                (SetStatus T sp codes_Error ''failed to decode response''
                                   (RecordError T sp
                                      (Errorf_w ''failed to decode response: %w'' err) t),
                                 sent))
                           | Inr weather \<Rightarrow> (Inr (Current_TempC weather), (t, sent))))))"

text \<open>
  What the two traced clients return and which requests they send, read off a run on
  the backend that records nothing. By \<open>GetCityFromCEP_span_returns\<close> and
  \<open>GetTemperature_span_returns\<close> below, every other run returns and sends the same.
\<close>

definition city_returned :: "world \<Rightarrow> string \<Rightarrow> error + string" where
  "city_returned w cep = fst (GetCityFromCEP_span noop w () cep () ((), []))"

definition city_requests :: "world \<Rightarrow> string \<Rightarrow> Request list" where
  "city_requests w cep = snd (snd (GetCityFromCEP_span noop w () cep () ((), [])))"

definition temperature_returned :: "world \<Rightarrow> string \<Rightarrow> error + float64" where
  "temperature_returned w city = fst (GetTemperature_span noop w () city () ((), []))"

definition temperature_requests :: "world \<Rightarrow> string \<Rightarrow> Request list" where
  "temperature_requests w city = snd (snd (GetTemperature_span noop w () city () ((), [])))"

text \<open>
  \<^verbatim>\<open>handler.TemperatureHandler\<close> with tracing (the first file of part 003). The deferred
  \<^verbatim>\<open>mainSpan.End()\<close> runs last on every path, and the error that \<^verbatim>\<open>Encode\<close> returns is
  discarded.
\<close>

definition TemperatureHandler_span ::
  "('c, 'sp, 't) tracing \<Rightarrow> world \<Rightarrow> ServerRequest \<Rightarrow> 't \<times> Request list
     \<Rightarrow> ResponseRecorder \<times> ('t \<times> Request list)" where
  "TemperatureHandler_span T w r st =
     (let t = fst st; sent = snd st;
          rw = NewRecorder;
          ctx = Extract T (in_Header r);
          started = Start T ctx ''temperature-handler'' t;
          ctx = fst (fst started); mainSpan = snd (fst started); t = snd started;
          cep = Query_Get r ''cep'';
          t = SetAttributes T mainSpan [attribute_String ''cep'' cep] t
      in if \<not> IsValidCEP cep
         then
           (let t = SetStatus T mainSpan codes_Error ''invalid zipcode'' t;
                t = SetAttributes T mainSpan [attribute_Bool ''valid_cep'' False] t;
                rw = WriteHeader StatusUnprocessableEntity rw;
                rw = Write ''invalid zipcode'' rw
            in (rw, (End T mainSpan t, sent)))
         else
           (let t = SetAttributes T mainSpan [attribute_Bool ''valid_cep'' True] t;
                started = Start T ctx ''get-city-from-cep'' t;
                ctx = fst (fst started); spanCity = snd (fst started); t = snd started;
                t = SetAttributes T spanCity [attribute_String ''cep'' cep] t
            in case GetCityFromCEP_span T w ctx cep spanCity (t, sent) of
                 (Inl err, (t, sent)) \<Rightarrow>
                   (let t = SetStatus T spanCity codes_Error ''city not found'' t;
                        t = End T spanCity t;
                        t = SetStatus T mainSpan codes_Error ''can not find zipcode'' t;
                        rw = WriteHeader StatusNotFound rw;
                        rw = Write ''can not find zipcode'' rw
                    in (rw, (End T mainSpan t, sent)))
               | (Inr city, (t, sent)) \<Rightarrow>
                   (let t = SetAttributes T spanCity [attribute_String ''city'' city] t;
                        t = SetStatus T spanCity codes_Ok ''city found successfully'' t;
                        t = End T spanCity t;
                        started = Start T ctx ''get-temperature-from-weather-api'' t;
                        ctx = fst (fst started); spanTemp = snd (fst started); t = snd started;
                        t = SetAttributes T spanTemp [attribute_String ''city'' city] t
                    in case GetTemperature_span T w ctx city spanTemp (t, sent) of
                         (Inl err, (t, sent)) \<Rightarrow>
                           (let t = SetStatus T spanTemp codes_Error ''failed to get temperature'' t;
                                t = End T spanTemp t;
                                t = SetStatus T mainSpan codes_Error ''error getting temperature'' t;
                                rw = WriteHeader StatusInternalServerError rw;
                                rw = Write ''error getting temperature'' rw
                            in (rw, (End T mainSpan t, sent)))
                       | (Inr tempC, (t, sent)) \<Rightarrow>
                           (let t = SetAttributes T spanTemp
                                      [attribute_Float64 ''temperature_celsius'' tempC] t;
                                t = SetStatus T spanTemp codes_Ok
                                      ''temperature retrieved successfully'' t;
                                t = End T spanTemp t;
                                started = Start T ctx ''convert-temperatures'' t;
                                spanConvert = snd (fst started); t = snd started;
                                temps = ConvertTemperatures (FMA w) tempC;
                                temps = (temps\<lparr> City := city \<rparr>);
                                t = SetAttributes T spanConvert
                                      [attribute_Float64 ''temp_celsius'' (TempC temps),
                                       attribute_Float64 ''temp_fahrenheit'' (TempF temps),
                                       attribute_Float64 ''temp_kelvin'' (TempK temps)] t;
                                t = SetStatus T spanConvert codes_Ok
                                      ''temperatures converted successfully'' t;
                                t = End T spanConvert t;
                                t = SetAttributes T mainSpan
                                      [attribute_String ''response_city'' city] t;
                                t = SetStatus T mainSpan codes_Ok
                                      ''request processed successfully'' t;
                                rw = Header_Set ''Content-Type'' ''application/json'' rw;
                                rw = WriteHeader StatusOK rw;
                                rw = snd (Encode w temps rw)
                            in (rw, (End T mainSpan t, sent))))))"

section \<open>The front gateway\<close>

text \<open>
  \<^verbatim>\<open>json.NewEncoder(w).Encode(ErrorResponse{Message: m})\<close>: the object with its one
  key, followed by a newline. The two messages the gateway encodes have no character
  that JSON escapes, so the message is copied as it is.
\<close>

definition Encode_ErrorResponse :: "ErrorResponse \<Rightarrow> string" where
  \<open>Encode_ErrorResponse e = ''{"message":"'' @ Message e @ ''"}'' @ [CHR 0x0A]\<close>

definition Sprintf_temperature_url :: "string \<Rightarrow> string \<Rightarrow> string" where
  "Sprintf_temperature_url serviceBURL cleanCEP = serviceBURL @ ''/temperature?cep='' @ cleanCEP"

text \<open>
  A handler run either returns, leaving what it wrote in the response writer, or ends
  the process in \<^verbatim>\<open>log.Fatal\<close>, which runs no deferred call and answers nothing.
\<close>

datatype served = Returned ResponseRecorder | log_Fatal string

text \<open>
  \<^verbatim>\<open>handleCEPRequest\<close> (service-input/main.go). The deferred calls run on return in
  reverse order: \<^verbatim>\<open>spanServiceB.End()\<close> if it was deferred, then \<^verbatim>\<open>span.End()\<close>.
  The status passed to \<^verbatim>\<open>WriteHeader\<close> on the last path is the three-digit code of a
  response the client has parsed.
\<close>

definition handleCEPRequest ::
  "('c, 'sp, 't) tracing \<Rightarrow> world \<Rightarrow> ServerRequest \<Rightarrow> 't \<times> Request list
     \<Rightarrow> served \<times> ('t \<times> Request list)" where
  "handleCEPRequest T w r st =
     (let t = fst st; sent = snd st;
          rw = NewRecorder;
          ctx = Background T;
          started = Start T ctx ''validate-cep'' t;
          ctx = fst (fst started); sp = snd (fst started); t = snd started
      in case Decode_CEPRequest w (in_Body r) \<lparr> CEP = '''' \<rparr> of
           Inl err \<Rightarrow>
             (let t = SetAttributes T sp [attribute_String ''error'' ''invalid json''] t;
                  rw = Header_Set ''Content-Type'' ''application/json'' rw;
                  rw = WriteHeader StatusUnprocessableEntity rw;
                  rw = Write (Encode_ErrorResponse \<lparr> Message = ''invalid zipcode'' \<rparr>) rw
              in (Returned rw, (End T sp t, sent)))
         | Inr req \<Rightarrow>
             (let t = SetAttributes T sp [attribute_String ''cep'' (CEP req)] t
              in if \<not> validateCEP (CEP req)
                 then
                   (let t = SetAttributes T sp [attribute_String ''error'' ''invalid cep format''] t;
                        rw = Header_Set ''Content-Type'' ''application/json'' rw;
                        rw = WriteHeader StatusUnprocessableEntity rw;
                        rw = Write (Encode_ErrorResponse \<lparr> Message = ''invalid zipcode'' \<rparr>) rw
                    in (Returned rw, (End T sp t, sent)))
                 else
                   (let cleanCEP = ReplaceAll (CEP req) ''-'' '''';
                        cleanCEP = ReplaceAll cleanCEP '' '' '''';
                        t = End T sp t;
                        started = Start T ctx ''call-service-b'' t;
                        ctx = fst (fst started); spanServiceB = snd (fst started); t = snd started;
                        serviceBURL = Getenv w ''SERVICE_B_URL''
                    in if serviceBURL = ''''
                       then (log_Fatal ''SERVICE_B_URL environment variable not set'', (t, sent))
                       else
                         (let url = Sprintf_temperature_url serviceBURL cleanCEP;
                              t = SetAttributes T spanServiceB
                                    [attribute_String ''service.b.url'' url,
                                     attribute_String ''clean_cep'' cleanCEP] t
                          in case NewRequestWithContext w ''GET'' url of
                               Inl err \<Rightarrow>
                                 (let t = SetAttributes T spanServiceB
                                            [attribute_String ''error'' ''failed to create request''] t;
                                      rw = Header_Set ''Content-Type'' ''application/json'' rw;
                                      rw = WriteHeader StatusInternalServerError rw;
                                      rw = Write (Encode_ErrorResponse
                                                    \<lparr> Message = ''internal server error'' \<rparr>) rw
                                  in (Returned rw, (End T sp (End T spanServiceB t), sent)))
                             | Inr reqServiceB \<Rightarrow>
                                 (let reqServiceB =
                                        (reqServiceB\<lparr> Header := Inject T ctx (Header reqServiceB) \<rparr>)
                                  in case Do w reqServiceB sent of
                                       (Inl err, sent) \<Rightarrow>
                                         (let t = SetAttributes T spanServiceB
                                                    [attribute_String ''error'' ''service b call failed''] t;
                                              rw = Header_Set ''Content-Type'' ''application/json'' rw;
                                              rw = WriteHeader StatusInternalServerError rw;
                                              rw = Write (Encode_ErrorResponse
                                                            \<lparr> Message = ''internal server error'' \<rparr>) rw
                                          in (Returned rw, (End T sp (End T spanServiceB t), sent)))
                                     | (Inr resp, sent) \<Rightarrow>
                                         (let t = SetAttributes T spanServiceB
                                                    [attribute_Int ''http.status_code'' (StatusCode resp)] t
                                          in case ReadAll (Body resp) of
                                               Inl err \<Rightarrow>
                                                 (let t = SetAttributes T spanServiceB
                                                            [attribute_String ''error''
                                                               ''failed to read response''] t;
                                                      rw = Header_Set ''Content-Type'' ''application/json'' rw;
                                                      rw = WriteHeader StatusInternalServerError rw;
                                                      rw = Write (Encode_ErrorResponse
                                                                    \<lparr> Message = ''internal server error'' \<rparr>) rw
                                                  in (Returned rw,
                                                      (End T sp (End T spanServiceB t), sent)))
                                             | Inr body \<Rightarrow>
                                                 (let rw = Header_Set ''Content-Type'' ''application/json'' rw;
                                                      rw = WriteHeader (StatusCode resp) rw;
                                                      rw = Write body rw
                                                  in (Returned rw,
                                                      (End T sp (End T spanServiceB t), sent)))))))))"

section \<open>Sample environments\<close>

text \<open>
  Concrete environments on which the program is run in the examples below. The JSON
  functions are given by their values on the handful of bodies the examples use (the
  values Go's \<^verbatim>\<open>encoding/json\<close> produces for them); any other body is a syntax error.
  The binary64 that the JSON number \<^verbatim>\<open>1e308\<close> decodes to is
  \<open>5010420900022432 \<times> 2\<^sup>9\<^sup>7\<^sup>1\<close> (lemma \<open>float64_1e308\<close>).
\<close>

definition sample_Decode_ViaCEP :: "Reader \<Rightarrow> ViaCEP \<Rightarrow> error + ViaCEP" where
  \<open>sample_Decode_ViaCEP rd v =
     (case rd of Reader bytes end_error \<Rightarrow>
        if bytes = ''{"localidade":"Campinas"}'' then Inr (v\<lparr> Localidade := ''Campinas'' \<rparr>)
        else if bytes = ''{"erro":true}'' then Inr (v\<lparr> Erro := True \<rparr>)
        else if bytes = ''{"localidade":""}'' then Inr (v\<lparr> Localidade := '''' \<rparr>)
        else if bytes = ''{}'' then Inr v
        else Inl (Errorf ''invalid character''))\<close>

definition sample_Decode_WeatherAPI :: "Reader \<Rightarrow> WeatherAPI \<Rightarrow> error + WeatherAPI" where
  \<open>sample_Decode_WeatherAPI rd v =
     (case rd of Reader bytes end_error \<Rightarrow>
        if bytes = ''{"current":{"temp_c":25}}'' then Inr (v\<lparr> Current_TempC := float64_of_int 25 \<rparr>)
        else if bytes = ''{"current":{"temp_c":1e308}}''
          then Inr (v\<lparr> Current_TempC := Finite False 5010420900022432 971 \<rparr>)
        else if bytes = ''{"current":{"humidity":80}}'' then Inr v
        else if bytes = ''{}'' then Inr v
        else Inl (Errorf ''invalid character''))\<close>

definition sample_Decode_CEPRequest :: "Reader \<Rightarrow> CEPRequest \<Rightarrow> error + CEPRequest" where
  \<open>sample_Decode_CEPRequest rd v =
     (case rd of Reader bytes end_error \<Rightarrow>
        if bytes = ''{"cep":"13010-000"}'' then Inr (v\<lparr> CEP := ''13010-000'' \<rparr>)
        else if bytes = ''{"cep":"1234567"}'' then Inr (v\<lparr> CEP := ''1234567'' \<rparr>)
        else if bytes = ''{}'' then Inr v
        else Inl (Errorf ''invalid character''))\<close>

definition sample_Encode_Temperature :: "Temperature \<Rightarrow> string" where
  \<open>sample_Encode_Temperature temps =
     (if temps = \<lparr> City = ''Campinas'', TempC = float64_of_int 25, TempF = float64_of_int 77,
                  TempK = float64_of_int 298 \<rparr>
      then ''{"city":"Campinas","temp_C":25,"temp_F":77,"temp_K":298}'' @ [CHR 0x0A]
      else [CHR 0x0A])\<close>

text \<open>
  \<open>sample_world key geo weather upstream\<close>: the weather credential is \<open>key\<close>; every
  URL parses; a request to the directory provider is answered by \<open>geo\<close>, one to the
  weather provider by \<open>weather\<close> and any other (the gateway's, to the orchestration
  service at \<^verbatim>\<open>http://b\<close>) by \<open>upstream\<close>.
\<close>

definition sample_world ::
  "string \<Rightarrow> error + Response \<Rightarrow> error + Response \<Rightarrow> error + Response \<Rightarrow> world" where
  "sample_world key geo weather upstream =
     \<lparr> Getenv = (\<lambda>name. if name = ''APIKeyWeather'' then key
                        else if name = ''SERVICE_B_URL'' then ''http://b'' else ''''),
       url_Parse = (\<lambda>url. None),
       RoundTrip = (\<lambda>req. if take 18 (URL req) = ''https://viacep.com'' then geo
                           else if take 18 (URL req) = ''https://api.weathe'' then weather
                           else upstream),
       QueryEscape = (\<lambda>s. s),
       Decode_ViaCEP = sample_Decode_ViaCEP,
       Decode_WeatherAPI = sample_Decode_WeatherAPI,
       Decode_CEPRequest = sample_Decode_CEPRequest,
       Encode_Temperature = sample_Encode_Temperature,
       FMA = False \<rparr>"

definition ok_response :: "string \<Rightarrow> error + Response" where
  "ok_response bytes = Inr \<lparr> StatusCode = 200, Status = ''200 OK'', Body = Reader bytes None \<rparr>"

definition unused :: "error + Response" where
  "unused = Inl (Errorf ''no such host'')"

definition cep_request :: "string \<Rightarrow> ServerRequest" where
  "cep_request cep = \<lparr> in_Header = [], in_Query = [(''cep'', cep)], in_Body = Reader '''' None \<rparr>"

definition post_request :: "string \<Rightarrow> ServerRequest" where
  "post_request bytes = \<lparr> in_Header = [], in_Query = [], in_Body = Reader bytes None \<rparr>"

section \<open>The validator accepts exactly the eight-digit codes\<close>

lemma in_class_perl_d: "in_class [(48, 57)] c = ascii_digit c"
proof (cases c)
  case (Char b0 b1 b2 b3 b4 b5 b6 b7)
  show ?thesis
    unfolding Char in_class_def ascii_digit_def
    by (cases b0; cases b1; cases b2; cases b3; cases b4; cases b5; cases b6; cases b7; simp)
qed

lemma all_below_Suc_shift:
  "(\<forall>k<Suc n. P (i + k)) \<longleftrightarrow> P i \<and> (\<forall>k<n. P (Suc i + k))"
proof
  assume a: "\<forall>k<Suc n. P (i + k)"
  have "P i" using a by (metis add.right_neutral zero_less_Suc)
  moreover have "\<forall>k<n. P (Suc i + k)"
  proof (intro allI impI)
    fix k assume "k < n"
    then have "Suc k < Suc n" by simp
    with a have "P (i + Suc k)" by blast
    then show "P (Suc i + k)" by simp
  qed
  ultimately show "P i \<and> (\<forall>k<n. P (Suc i + k))" by simp
next
  assume b: "P i \<and> (\<forall>k<n. P (Suc i + k))"
  show "\<forall>k<Suc n. P (i + k)"
  proof (intro allI impI)
    fix k assume "k < Suc n"
    show "P (i + k)"
    proof (cases k)
      case 0 then show ?thesis using b by simp
    next
      case (Suc j)
      then have "j < n" using \<open>k < Suc n\<close> by simp
      then have "P (Suc i + j)" using b by simp
      then show ?thesis using Suc by simp
    qed
  qed
qed

text \<open>One more digit in front: the class must match at \<open>i\<close>, the rest one position on.\<close>

lemma ends_Repeat_Suc_perl_d:
  "ends (Repeat (Suc n) perl_d) s i =
     (if i < length s \<and> ascii_digit (s ! i) then ends (Repeat n perl_d) s (Suc i) else [])"
  by (auto simp: perl_d_def in_class_perl_d)

text \<open>\<^verbatim>\<open>\d{n}\<close> started inside the text ends after exactly \<open>n\<close> digits, or nowhere.\<close>

lemma ends_Repeat_perl_d:
  "i \<le> length s \<Longrightarrow> ends (Repeat n perl_d) s i =
     (if i + n \<le> length s \<and> (\<forall>k<n. ascii_digit (s ! (i + k))) then [i + n] else [])"
proof (induction n arbitrary: i)
  case 0
  then show ?case by simp
next
  case (Suc n)
  show ?case
  proof (cases "i < length s \<and> ascii_digit (s ! i)")
    case True
    then have "ends (Repeat (Suc n) perl_d) s i = ends (Repeat n perl_d) s (Suc i)"
      by (simp add: ends_Repeat_Suc_perl_d del: ends.simps Repeat.simps)
    also have "\<dots> = (if Suc i + n \<le> length s \<and> (\<forall>k<n. ascii_digit (s ! (Suc i + k)))
                       then [Suc i + n] else [])"
      using True by (intro Suc.IH) simp
    also have "\<dots> = (if i + Suc n \<le> length s \<and> (\<forall>k<Suc n. ascii_digit (s ! (i + k)))
                       then [i + Suc n] else [])"
      unfolding all_below_Suc_shift[of n "\<lambda>j. ascii_digit (s ! j)" i] using True by simp
    finally show ?thesis .
  next
    case False
    then have "ends (Repeat (Suc n) perl_d) s i = []"
      by (auto simp add: ends_Repeat_Suc_perl_d simp del: ends.simps Repeat.simps)
    moreover have "\<not> (i + Suc n \<le> length s \<and> (\<forall>k<Suc n. ascii_digit (s ! (i + k))))"
      unfolding all_below_Suc_shift[of n "\<lambda>j. ascii_digit (s ! j)" i] using False by auto
    ultimately show ?thesis by (simp only: if_False)
  qed
qed

lemma ends_cep_pattern:
  "ends cep_pattern s i =
     (if i = 0 \<and> length s = 8 \<and> (\<forall>k<8. ascii_digit (s ! k)) then [8] else [])"
  by (auto simp: cep_pattern_def ends_Repeat_perl_d)

lemma MatchString_cep_pattern: "MatchString cep_pattern s = eight_digits s"
proof -
  have "MatchString cep_pattern s \<longleftrightarrow> length s = 8 \<and> (\<forall>k<8. ascii_digit (s ! k))"
    unfolding MatchString_def list_ex_iff ends_cep_pattern by auto
  then show ?thesis
    unfolding eight_digits_def list_all_iff by (auto simp: all_set_conv_all_nth)
qed

text \<open>Replacing a one-byte string by nothing deletes that byte everywhere.\<close>

lemma ReplaceAll_byte_by_nothing: "ReplaceAll s [c] [] = filter (\<lambda>x. x \<noteq> c) s"
proof (induction s)
  case Nil
  show ?case by simp
next
  case (Cons a s)
  then show ?case by (cases "a = c") simp_all
qed

lemma validateCEP_filter:
  "validateCEP s = eight_digits (filter (\<lambda>c. c \<noteq> CHR ''-'' \<and> c \<noteq> CHR '' '') s)"
proof -
  have "filter (\<lambda>x. x \<noteq> CHR '' '') (filter (\<lambda>x. x \<noteq> CHR ''-'') s) =
        filter (\<lambda>c. c \<noteq> CHR ''-'' \<and> c \<noteq> CHR '' '') s"
    by (simp add: conj_commute)
  then show ?thesis
    by (simp add: validateCEP_def Let_def ReplaceAll_byte_by_nothing MatchString_cep_pattern
          del: ReplaceAll.simps)
qed

text \<open>
  Claim C2. \<open>IsValidCEP s\<close> holds if and only if \<open>s\<close> is exactly eight bytes long and
  every byte is one of the ASCII digits \<open>0\<close> to \<open>9\<close>. Any other string (shorter, longer,
  with white space, separators, letters or the bytes of a non-ASCII digit) is answered
  \<open>False\<close>; the function is total and has no other result.
\<close>

theorem IsValidCEP_iff_eight_ascii_digits:
  "IsValidCEP s \<longleftrightarrow> length s = 8 \<and> (\<forall>c \<in> set s. c \<in> set ''0123456789'')"
  unfolding IsValidCEP_def MatchString_cep_pattern eight_digits_def list_all_iff ascii_digit_def ..

text \<open>The eight bytes of the last string are four Arabic-Indic digits in UTF-8.\<close>

theorem IsValidCEP_iff_eight_ascii_digits_witness:
  "IsValidCEP ''01001000'' \<and> \<not> IsValidCEP ''0100100'' \<and> \<not> IsValidCEP ''010010000''
   \<and> \<not> IsValidCEP ''01001-000'' \<and> \<not> IsValidCEP '' 0100100'' \<and> \<not> IsValidCEP ''0100100a''
   \<and> \<not> IsValidCEP [CHR 0xD9, CHR 0xA1, CHR 0xD9, CHR 0xA2, CHR 0xD9, CHR 0xA3, CHR 0xD9, CHR 0xA4]"
  using IsValidCEP_iff_eight_ascii_digits [of "''01001000''"]
    IsValidCEP_iff_eight_ascii_digits [of "''0100100''"]
    IsValidCEP_iff_eight_ascii_digits [of "''010010000''"]
    IsValidCEP_iff_eight_ascii_digits [of "''01001-000''"]
    IsValidCEP_iff_eight_ascii_digits [of "'' 0100100''"]
    IsValidCEP_iff_eight_ascii_digits [of "''0100100a''"]
    IsValidCEP_iff_eight_ascii_digits
      [of "[CHR 0xD9, CHR 0xA1, CHR 0xD9, CHR 0xA2, CHR 0xD9, CHR 0xA3, CHR 0xD9, CHR 0xA4]"]
  by simp

text \<open>
  Claim C8. The gateway's \<open>validateCEP s\<close> is the orchestrator's \<open>IsValidCEP\<close> applied to
  \<open>s\<close> with every hyphen and every space removed; on a string with no hyphen and no
  space the two validators give the same answer.
\<close>

theorem validateCEP_is_IsValidCEP_after_stripping:
  "(validateCEP s \<longleftrightarrow> IsValidCEP (filter (\<lambda>c. c \<noteq> CHR ''-'' \<and> c \<noteq> CHR '' '') s))
   \<and> (CHR ''-'' \<notin> set s \<and> CHR '' '' \<notin> set s \<longrightarrow> (validateCEP s \<longleftrightarrow> IsValidCEP s))"
proof -
  have strip: "validateCEP s \<longleftrightarrow> IsValidCEP (filter (\<lambda>c. c \<noteq> CHR ''-'' \<and> c \<noteq> CHR '' '') s)"
    by (simp add: validateCEP_filter IsValidCEP_def MatchString_cep_pattern)
  have "filter (\<lambda>c. c \<noteq> CHR ''-'' \<and> c \<noteq> CHR '' '') s = s"
    if "CHR ''-'' \<notin> set s \<and> CHR '' '' \<notin> set s"
    using that by (intro filter_True) auto
  with strip show ?thesis by auto
qed

theorem validateCEP_is_IsValidCEP_after_stripping_witness:
  "CHR ''-'' \<notin> set ''01001000'' \<and> CHR '' '' \<notin> set ''01001000''
   \<and> validateCEP ''01001000'' \<and> IsValidCEP ''01001000''
   \<and> validateCEP ''01001-000'' \<and> \<not> IsValidCEP ''01001-000''
   \<and> \<not> validateCEP ''0100-100'' \<and> \<not> IsValidCEP ''0100-100''"
  using validateCEP_is_IsValidCEP_after_stripping [of "''01001000''"]
    validateCEP_is_IsValidCEP_after_stripping [of "''01001-000''"]
    validateCEP_is_IsValidCEP_after_stripping [of "''0100-100''"]
  by (simp add: IsValidCEP_def MatchString_cep_pattern eight_digits_def ascii_digit_def)

section \<open>The converter\<close>

text \<open>The constants of the program as binary64 values. The significand of
  \<open>float64_1_8\<close> is within half a unit in the last place of \<open>1.8 \<times> 2\<^sup>5\<^sup>2\<close>, so it is the
  binary64 nearest to 1.8.\<close>

lemma float64_of_int_values:
  "float64_of_int 0 = 0"
  "float64_of_int 25 = Finite False 7036874417766400 (- 48)"
  "float64_of_int 32 = Finite False 4503599627370496 (- 47)"
  "float64_of_int 77 = Finite False 5418393301680128 (- 46)"
  "float64_of_int 273 = Finite False 4802666790125568 (- 44)"
  "float64_of_int 298 = Finite False 5242471441235968 (- 44)"
  by code_simp+

lemma float64_1_8_nearest:
  "float64_1_8 = Finite False 8106479329266893 (- 52)
   \<and> 2 * \<bar>5 * 8106479329266893 - 9 * 2 ^ 52\<bar> < (5::int)"
  by (simp add: float64_1_8_def)

lemma float64_1e308: "round64 False (10 ^ 308) 0 = Finite False 5010420900022432 971"
  by code_simp












text \<open>
  The examples of the specification, and three inputs on which binary64 shows: 37
  degrees give \<open>6938358175917671 \<times> 2\<^sup>-\<^sup>4\<^sup>6\<close> (printed 98.60000000000001), \<open>10\<^sup>1\<^sup>7\<close> gives
  the Kelvin value \<open>6250000000000017 \<times> 2\<^sup>4\<close> (one less than \<open>10\<^sup>1\<^sup>7 + 273\<close>), and the
  binary64 of \<^verbatim>\<open>1e308\<close> gives the Fahrenheit value \<open>+Inf\<close>.
\<close>

lemma ConvertTemperatures_examples_unfused:
  "ConvertTemperatures False (float64_of_int 0) =
     \<lparr> City = '''', TempC = float64_of_int 0, TempF = float64_of_int 32, TempK = float64_of_int 273 \<rparr>"
  "ConvertTemperatures False (float64_of_int 100) =
     \<lparr> City = '''', TempC = float64_of_int 100, TempF = float64_of_int 212,
       TempK = float64_of_int 373 \<rparr>"
  "ConvertTemperatures False (float64_of_int (- 40)) =
     \<lparr> City = '''', TempC = float64_of_int (- 40), TempF = float64_of_int (- 40),
       TempK = float64_of_int 233 \<rparr>"
  "ConvertTemperatures False (float64_of_int 25) =
     \<lparr> City = '''', TempC = float64_of_int 25, TempF = float64_of_int 77, TempK = float64_of_int 298 \<rparr>"
  "ConvertTemperatures False (float64_of_int 37) =
     \<lparr> City = '''', TempC = float64_of_int 37, TempF = Finite False 6938358175917671 (- 46),
       TempK = float64_of_int 310 \<rparr>"
  "TempK (ConvertTemperatures False (float64_of_int (10 ^ 17))) = Finite False 6250000000000017 4"
  by code_simp+

lemma ConvertTemperatures_examples_fused:
  "ConvertTemperatures True (float64_of_int 0) =
     \<lparr> City = '''', TempC = float64_of_int 0, TempF = float64_of_int 32, TempK = float64_of_int 273 \<rparr>"
  "ConvertTemperatures True (float64_of_int 100) =
     \<lparr> City = '''', TempC = float64_of_int 100, TempF = float64_of_int 212,
       TempK = float64_of_int 373 \<rparr>"
  "ConvertTemperatures True (float64_of_int (- 40)) =
     \<lparr> City = '''', TempC = float64_of_int (- 40), TempF = float64_of_int (- 40),
       TempK = float64_of_int 233 \<rparr>"
  "ConvertTemperatures True (float64_of_int 37) =
     \<lparr> City = '''', TempC = float64_of_int 37, TempF = Finite False 6938358175917671 (- 46),
       TempK = float64_of_int 310 \<rparr>"
  by code_simp+

lemma ConvertTemperatures_overflows:
  "TempF (ConvertTemperatures fused (Finite False 5010420900022432 971)) = Infinity False"
proof -
  have "TempF (ConvertTemperatures False (Finite False 5010420900022432 971)) = Infinity False"
    and "TempF (ConvertTemperatures True (Finite False 5010420900022432 971)) = Infinity False"
    by code_simp+
  then show ?thesis by (cases fused) simp_all
qed

section \<open>What the clients return\<close>

text \<open>
  The result of each client as a function of the environment alone. For the traced
  clients neither the backend, the context, the span nor the state appears on the
  right-hand side.
\<close>

lemma http_Get_result:
  "fst (http_Get w url sent) =
     (case NewRequestWithContext w ''GET'' url of
        Inl err \<Rightarrow> Inl err
      | Inr req \<Rightarrow> RoundTrip w req)"
  by (simp add: http_Get_def Do_def split: sum.splits)

lemma GetCityFromCEP_result:
  "fst (GetCityFromCEP w cep sent) =
     (case NewRequestWithContext w ''GET'' (Sprintf_UrlViaCEP cep) of
        Inl err \<Rightarrow> Inl err
      | Inr req \<Rightarrow>
          (case RoundTrip w req of
             Inl err \<Rightarrow> Inl err
           | Inr resp \<Rightarrow>
               (case Decode_ViaCEP w (Body resp) \<lparr> Localidade = '''', Erro = False \<rparr> of
                  Inl err \<Rightarrow> Inl err
                | Inr viaCEP \<Rightarrow>
                    if Erro viaCEP \<or> Localidade viaCEP = ''''
                    then Inl (Errorf ''zipcode not found'')
                    else Inr (Localidade viaCEP))))"
  by (simp add: GetCityFromCEP_def http_Get_def Do_def Let_def split: sum.splits)

lemma GetCityFromCEP_sent:
  "snd (GetCityFromCEP w cep sent) =
     (case NewRequestWithContext w ''GET'' (Sprintf_UrlViaCEP cep) of
        Inl err \<Rightarrow> sent
      | Inr req \<Rightarrow> sent @ [req])"
  by (simp add: GetCityFromCEP_def http_Get_def Do_def Let_def split: sum.splits)

lemma GetTemperature_result:
  "fst (GetTemperature w city sent) =
     (if Getenv w ''APIKeyWeather'' = '''' then Inl (Errorf ''API key is not set'')
      else
        (case NewRequestWithContext w ''GET''
                (Sprintf_UrlWeatherAPI (Getenv w ''APIKeyWeather'') (QueryEscape w city)) of
           Inl err \<Rightarrow> Inl err
         | Inr req \<Rightarrow>
             (case RoundTrip w req of
                Inl err \<Rightarrow> Inl err
              | Inr resp \<Rightarrow>
                  if StatusCode resp \<noteq> StatusOK
                  then Inl (Errorf_d ''weather API returned status: %d'' (StatusCode resp))
                  else (case Decode_WeatherAPI w (Body resp) \<lparr> Current_TempC = 0 \<rparr> of
                          Inl err \<Rightarrow> Inl err
                        | Inr weather \<Rightarrow> Inr (Current_TempC weather)))))"
  by (simp add: GetTemperature_def http_Get_def Do_def Let_def split: sum.splits)

lemma GetTemperature_sent:
  "snd (GetTemperature w city sent) =
     (if Getenv w ''APIKeyWeather'' = '''' then sent
      else
        (case NewRequestWithContext w ''GET''
                (Sprintf_UrlWeatherAPI (Getenv w ''APIKeyWeather'') (QueryEscape w city)) of
           Inl err \<Rightarrow> sent
         | Inr req \<Rightarrow> sent @ [req]))"
  by (simp add: GetTemperature_def http_Get_def Do_def Let_def split: sum.splits)

lemma GetCityFromCEP_span_result:
  "fst (GetCityFromCEP_span T w ctx cep sp st) =
     (case NewRequestWithContext w ''GET'' (Sprintf_UrlViaCEP cep) of
        Inl err \<Rightarrow> Inl err
      | Inr req \<Rightarrow>
          (case RoundTrip w req of
             Inl err \<Rightarrow> Inl err
           | Inr resp \<Rightarrow>
               if StatusCode resp \<noteq> StatusOK
               then Inl (Errorf_d ''ViaCEP API returned status: %d'' (StatusCode resp))
               else (case Decode_ViaCEP w (Body resp) \<lparr> Localidade = '''', Erro = False \<rparr> of
                       Inl err \<Rightarrow> Inl err
                     | Inr viaCEP \<Rightarrow>
                         if Erro viaCEP \<or> Localidade viaCEP = ''''
                         then Inl (Errorf ''can not find zipcode'')
                         else Inr (Localidade viaCEP))))"
  by (simp add: GetCityFromCEP_span_def Do_def Let_def split: sum.splits)

lemma GetCityFromCEP_span_sent:
  "snd (snd (GetCityFromCEP_span T w ctx cep sp st)) =
     (case NewRequestWithContext w ''GET'' (Sprintf_UrlViaCEP cep) of
        Inl err \<Rightarrow> snd st
      | Inr req \<Rightarrow> snd st @ [req])"
  by (simp add: GetCityFromCEP_span_def Do_def Let_def split: sum.splits)

lemma GetTemperature_span_result:
  "fst (GetTemperature_span T w ctx city sp st) =
     (if Getenv w ''APIKeyWeather'' = '''' then Inl (Errorf ''API key is not set'')
      else
        (case NewRequestWithContext w ''GET''
                (Sprintf_UrlWeatherAPI (Getenv w ''APIKeyWeather'') (QueryEscape w city)) of
           Inl err \<Rightarrow> Inl err
         | Inr req \<Rightarrow>
             (case RoundTrip w req of
                Inl err \<Rightarrow> Inl err
              | Inr resp \<Rightarrow>
                  if StatusCode resp \<noteq> StatusOK
                  then Inl (Errorf_d ''weather API returned status: %d'' (StatusCode resp))
                  else (case Decode_WeatherAPI w (Body resp) \<lparr> Current_TempC = 0 \<rparr> of
                          Inl err \<Rightarrow> Inl err
                        | Inr weather \<Rightarrow> Inr (Current_TempC weather)))))"
  by (simp add: GetTemperature_span_def Do_def Let_def split: sum.splits)

lemma GetTemperature_span_sent:
  "snd (snd (GetTemperature_span T w ctx city sp st)) =
     (if Getenv w ''APIKeyWeather'' = '''' then snd st
      else
        (case NewRequestWithContext w ''GET''
                (Sprintf_UrlWeatherAPI (Getenv w ''APIKeyWeather'') (QueryEscape w city)) of
           Inl err \<Rightarrow> snd st
         | Inr req \<Rightarrow> snd st @ [req]))"
  by (simp add: GetTemperature_span_def Do_def Let_def split: sum.splits)

text \<open>The two weather clients return the same; the two geocode clients differ in the
  status check and in the text of the not-found error.\<close>

lemma GetTemperature_span_same_as_GetTemperature:
  "fst (GetTemperature_span T w ctx city sp st) = fst (GetTemperature w city sent)"
  by (simp only: GetTemperature_span_result GetTemperature_result)

lemmas sample_defs =
  sample_world_def sample_Decode_ViaCEP_def sample_Decode_WeatherAPI_def
  sample_Decode_CEPRequest_def sample_Encode_Temperature_def ok_response_def unused_def
  cep_request_def post_request_def NewRequestWithContext_def Sprintf_UrlViaCEP_def
  Sprintf_UrlWeatherAPI_def Sprintf_temperature_url_def StatusOK_def

text \<open>
  Claim C4. When the directory provider's response has been decoded and either its
  \<open>erro\<close> flag is set or its \<open>localidade\<close> is empty, \<open>GetCityFromCEP\<close> returns one fixed
  error, the same for both conditions (for the traced client the response is decoded
  only under status 200). Hence a city that \<open>GetCityFromCEP\<close> returns is never empty.
  Both versions of the client are covered.
\<close>

theorem GetCityFromCEP_not_found_is_an_error:
  "(NewRequestWithContext w ''GET'' (Sprintf_UrlViaCEP cep) = Inr req
      \<and> RoundTrip w req = Inr resp
      \<and> Decode_ViaCEP w (Body resp) \<lparr> Localidade = '''', Erro = False \<rparr> = Inr viaCEP
      \<and> (Erro viaCEP \<or> Localidade viaCEP = '''')
    \<longrightarrow> fst (GetCityFromCEP w cep sent) = Inl (Errorf ''zipcode not found'')
        \<and> (StatusCode resp = StatusOK
             \<longrightarrow> fst (GetCityFromCEP_span T w ctx cep sp st) = Inl (Errorf ''can not find zipcode'')))
   \<and> (\<forall>city. fst (GetCityFromCEP w cep sent) = Inr city \<longrightarrow> city \<noteq> '''')
   \<and> (\<forall>city. fst (GetCityFromCEP_span T w ctx cep sp st) = Inr city \<longrightarrow> city \<noteq> '''')"
proof (intro conjI allI impI)
  assume h: "NewRequestWithContext w ''GET'' (Sprintf_UrlViaCEP cep) = Inr req
      \<and> RoundTrip w req = Inr resp
      \<and> Decode_ViaCEP w (Body resp) \<lparr> Localidade = '''', Erro = False \<rparr> = Inr viaCEP
      \<and> (Erro viaCEP \<or> Localidade viaCEP = '''')"
  then show "fst (GetCityFromCEP w cep sent) = Inl (Errorf ''zipcode not found'')"
    by (auto simp: GetCityFromCEP_result)
  assume "StatusCode resp = StatusOK"
  with h show "fst (GetCityFromCEP_span T w ctx cep sp st) = Inl (Errorf ''can not find zipcode'')"
    by (auto simp: GetCityFromCEP_span_result)
next
  fix city
  assume "fst (GetCityFromCEP w cep sent) = Inr city"
  then show "city \<noteq> ''''"
    by (auto simp: GetCityFromCEP_result split: sum.splits if_splits)
next
  fix city
  assume "fst (GetCityFromCEP_span T w ctx cep sp st) = Inr city"
  then show "city \<noteq> ''''"
    by (auto simp: GetCityFromCEP_span_result split: sum.splits if_splits)
qed

theorem GetCityFromCEP_not_found_is_an_error_witness:
  \<open>fst (GetCityFromCEP (sample_world ''key'' (ok_response ''{"erro":true}'') unused unused)
          ''99999999'' [])
     = Inl (Errorf ''zipcode not found'')
   \<and> fst (GetCityFromCEP_span recording
          (sample_world ''key'' (ok_response ''{"localidade":""}'') unused unused)
          [] ''99999999'' 0 ([], []))
     = Inl (Errorf ''can not find zipcode'')
   \<and> fst (GetCityFromCEP (sample_world ''key'' (ok_response ''{"localidade":"Campinas"}'') unused unused)
          ''13010000'' [])
     = Inr ''Campinas'' \<and> ''Campinas'' \<noteq> ''''\<close>
proof -
  let ?erro = \<open>sample_world ''key'' (ok_response ''{"erro":true}'') unused unused\<close>
  let ?empty = \<open>sample_world ''key'' (ok_response ''{"localidade":""}'') unused unused\<close>
  let ?found = \<open>sample_world ''key'' (ok_response ''{"localidade":"Campinas"}'') unused unused\<close>
  let ?req = "\<lparr> Method = ''GET'', URL = Sprintf_UrlViaCEP ''99999999'', Header = [] \<rparr>"
  have 1: \<open>NewRequestWithContext ?erro ''GET'' (Sprintf_UrlViaCEP ''99999999'') = Inr ?req
      \<and> RoundTrip ?erro ?req
          = Inr \<lparr> StatusCode = 200, Status = ''200 OK'', Body = Reader ''{"erro":true}'' None \<rparr>
      \<and> Decode_ViaCEP ?erro
            (Body \<lparr> StatusCode = 200, Status = ''200 OK'', Body = Reader ''{"erro":true}'' None \<rparr>)
            \<lparr> Localidade = '''', Erro = False \<rparr>
          = Inr \<lparr> Localidade = '''', Erro = True \<rparr>
      \<and> (Erro \<lparr> Localidade = '''', Erro = True \<rparr> \<or> Localidade \<lparr> Localidade = '''', Erro = True \<rparr> = '''')\<close>
    by (simp add: sample_defs)
  have 2: \<open>NewRequestWithContext ?empty ''GET'' (Sprintf_UrlViaCEP ''99999999'') = Inr ?req
      \<and> RoundTrip ?empty ?req
          = Inr \<lparr> StatusCode = 200, Status = ''200 OK'', Body = Reader ''{"localidade":""}'' None \<rparr>
      \<and> Decode_ViaCEP ?empty
            (Body \<lparr> StatusCode = 200, Status = ''200 OK'', Body = Reader ''{"localidade":""}'' None \<rparr>)
            \<lparr> Localidade = '''', Erro = False \<rparr>
          = Inr \<lparr> Localidade = '''', Erro = False \<rparr>
      \<and> (Erro \<lparr> Localidade = '''', Erro = False \<rparr> \<or> Localidade \<lparr> Localidade = '''', Erro = False \<rparr> = '''')\<close>
    by (simp add: sample_defs)
  have 3: \<open>fst (GetCityFromCEP ?found ''13010000'' []) = Inr ''Campinas''\<close>
    by (simp add: GetCityFromCEP_result sample_defs)
  note a = GetCityFromCEP_not_found_is_an_error
    [of ?erro "''99999999''" ?req _ _ "[]" recording "[]" 0 "([], [])", THEN conjunct1, rule_format, OF 1]
  note b = GetCityFromCEP_not_found_is_an_error
    [of ?empty "''99999999''" ?req _ _ "[]" recording "[]" 0 "([], [])", THEN conjunct1, rule_format, OF 2]
  note c = GetCityFromCEP_not_found_is_an_error
    [of ?found "''13010000''" _ _ _ "[]" recording "[]" 0 "([], [])", THEN conjunct2, THEN conjunct1,
     rule_format, OF 3]
  from a b c 3 show ?thesis by (simp add: StatusOK_def)
qed

text \<open>
  The traced client reads the status first: a response whose status is not 200 is an
  error that carries the status, whatever the body holds; the body is not even decoded.
\<close>

lemma GetCityFromCEP_span_checks_status:
  assumes "NewRequestWithContext w ''GET'' (Sprintf_UrlViaCEP cep) = Inr req"
    and "RoundTrip w req = Inr resp" and "StatusCode resp \<noteq> StatusOK"
  shows "fst (GetCityFromCEP_span T w ctx cep sp st) =
           Inl (Errorf_d ''ViaCEP API returned status: %d'' (StatusCode resp))"
  using assms by (simp add: GetCityFromCEP_span_result)

text \<open>
  Claim C5 says that a response with a non-success status makes \<open>GetCityFromCEP\<close> fail
  whatever the body holds. In the client of service-orchestration/utils/viacep.go the
  status is never read. The provider answers status 500 with a body that decodes to a
  city, and the client returns that city with no error; the traced client returns the
  status error on the same response.
\<close>

theorem GetCityFromCEP_ignores_status:
  \<open>fst (GetCityFromCEP
          (sample_world ''key''
             (Inr \<lparr> StatusCode = 500, Status = ''500 Internal Server Error'',
                    Body = Reader ''{"localidade":"Campinas"}'' None \<rparr>) unused unused)
          ''13010000'' [])
     = Inr ''Campinas''
   \<and> fst (GetCityFromCEP_span recording
          (sample_world ''key''
             (Inr \<lparr> StatusCode = 500, Status = ''500 Internal Server Error'',
                    Body = Reader ''{"localidade":"Campinas"}'' None \<rparr>) unused unused)
          [] ''13010000'' 0 ([], []))
     = Inl (Errorf_d ''ViaCEP API returned status: %d'' 500)\<close>
  by (simp add: GetCityFromCEP_result GetCityFromCEP_span_result sample_defs)

text \<open>
  Claim C7. With the credential set, the request built and answered with status 200:
  if decoding succeeds and leaves the temperature field of the zero-initialised
  variable as it was (the body has no such field), \<open>GetTemperature\<close> returns the
  reading \<open>0\<close> and no error; and it returns an error exactly when decoding fails.
  Both versions of the client are covered.
\<close>

theorem GetTemperature_missing_field_is_zero:
  "Getenv w ''APIKeyWeather'' \<noteq> ''''
     \<and> NewRequestWithContext w ''GET''
          (Sprintf_UrlWeatherAPI (Getenv w ''APIKeyWeather'') (QueryEscape w city)) = Inr req
     \<and> RoundTrip w req = Inr resp \<and> StatusCode resp = StatusOK
   \<longrightarrow> (Decode_WeatherAPI w (Body resp) \<lparr> Current_TempC = 0 \<rparr> = Inr \<lparr> Current_TempC = 0 \<rparr>
          \<longrightarrow> fst (GetTemperature w city sent) = Inr 0
              \<and> fst (GetTemperature_span T w ctx city sp st) = Inr 0)
       \<and> (isl (fst (GetTemperature w city sent))
            \<longleftrightarrow> isl (Decode_WeatherAPI w (Body resp) \<lparr> Current_TempC = 0 \<rparr>))
       \<and> (isl (fst (GetTemperature_span T w ctx city sp st))
            \<longleftrightarrow> isl (Decode_WeatherAPI w (Body resp) \<lparr> Current_TempC = 0 \<rparr>))"
  by (auto simp: GetTemperature_result GetTemperature_span_result split: sum.splits)

theorem GetTemperature_missing_field_is_zero_witness:
  \<open>fst (GetTemperature
          (sample_world ''key'' unused (ok_response ''{"current":{"humidity":80}}'') unused)
          ''Campinas'' [])
     = Inr 0
   \<and> fst (GetTemperature_span recording
          (sample_world ''key'' unused (ok_response ''{"current":{"humidity":80}}'') unused)
          [] ''Campinas'' 0 ([], []))
     = Inr 0\<close>
proof -
  let ?w = \<open>sample_world ''key'' unused (ok_response ''{"current":{"humidity":80}}'') unused\<close>
  let ?req = "\<lparr> Method = ''GET'',
                 URL = ''https://api.weatherapi.com/v1/current.json?key=key&q=Campinas'',
                 Header = [] \<rparr>"
  let ?resp = \<open>\<lparr> StatusCode = 200, Status = ''200 OK'',
                  Body = Reader ''{"current":{"humidity":80}}'' None \<rparr>\<close>
  have 1: "Getenv ?w ''APIKeyWeather'' \<noteq> ''''
     \<and> NewRequestWithContext ?w ''GET''
          (Sprintf_UrlWeatherAPI (Getenv ?w ''APIKeyWeather'') (QueryEscape ?w ''Campinas'')) = Inr ?req
     \<and> RoundTrip ?w ?req = Inr ?resp \<and> StatusCode ?resp = StatusOK"
    by (simp add: sample_defs)
  have 2: "Decode_WeatherAPI ?w (Body ?resp) \<lparr> Current_TempC = 0 \<rparr> = Inr \<lparr> Current_TempC = 0 \<rparr>"
    by (simp add: sample_defs)
  show ?thesis
    using GetTemperature_missing_field_is_zero
      [of ?w "''Campinas''" ?req ?resp "[]" recording "[]" 0 "([], [])",
       rule_format, OF 1, THEN conjunct1, rule_format, OF 2]
    by simp
qed

section \<open>The pipeline of the orchestrator\<close>

lemma GetCityFromCEP_span_returns:
  "fst (GetCityFromCEP_span T w ctx cep sp st) = city_returned w cep"
  by (simp only: city_returned_def GetCityFromCEP_span_result)

lemma GetCityFromCEP_span_sends:
  "snd (snd (GetCityFromCEP_span T w ctx cep sp st)) = snd st @ city_requests w cep"
  by (simp add: city_requests_def GetCityFromCEP_span_sent split: sum.splits)

lemma GetTemperature_span_returns:
  "fst (GetTemperature_span T w ctx city sp st) = temperature_returned w city"
  by (simp only: temperature_returned_def GetTemperature_span_result)

lemma GetTemperature_span_sends:
  "snd (snd (GetTemperature_span T w ctx city sp st)) = snd st @ temperature_requests w city"
  by (simp add: temperature_requests_def GetTemperature_span_sent split: sum.splits)

text \<open>Each client hands at most one request to the network, the one for its own URL.\<close>

lemma city_requests_cases:
  "city_requests w cep = [] \<or>
   city_requests w cep = [\<lparr> Method = ''GET'', URL = Sprintf_UrlViaCEP cep, Header = [] \<rparr>]"
  by (simp add: city_requests_def GetCityFromCEP_span_sent NewRequestWithContext_def
      split: option.splits)

lemma city_requests_after_success:
  "city_returned w cep = Inr city \<Longrightarrow>
   city_requests w cep = [\<lparr> Method = ''GET'', URL = Sprintf_UrlViaCEP cep, Header = [] \<rparr>]"
  by (simp add: city_requests_def city_returned_def GetCityFromCEP_span_sent
        GetCityFromCEP_span_result NewRequestWithContext_def
      split: option.splits)

lemma temperature_requests_cases:
  "temperature_requests w city = [] \<or>
   temperature_requests w city =
     [\<lparr> Method = ''GET'',
        URL = Sprintf_UrlWeatherAPI (Getenv w ''APIKeyWeather'') (QueryEscape w city),
        Header = [] \<rparr>]"
  by (simp add: temperature_requests_def GetTemperature_span_sent NewRequestWithContext_def
      split: option.splits)

lemma GetCityFromCEP_sends:
  "snd (GetCityFromCEP w cep sent) = sent @ city_requests w cep"
  by (simp add: city_requests_def GetCityFromCEP_span_sent GetCityFromCEP_sent split: sum.splits)

lemma GetTemperature_sends:
  "snd (GetTemperature w city sent) = sent @ temperature_requests w city"
  by (simp add: temperature_requests_def GetTemperature_span_sent GetTemperature_sent
      split: sum.splits)

lemma GetTemperature_returns:
  "fst (GetTemperature w city sent) = temperature_returned w city"
  by (simp only: temperature_returned_def GetTemperature_span_result GetTemperature_result)

lemma GetCityFromCEP_any_log:
  "fst (GetCityFromCEP w cep sent) = fst (GetCityFromCEP w cep sent')"
  by (simp only: GetCityFromCEP_result)

lemmas status_defs =
  StatusOK_def StatusNotFound_def StatusUnprocessableEntity_def StatusInternalServerError_def

lemmas writer_defs = NewRecorder_def WriteHeader_def Write_def Header_Set_def

subsection \<open>The traced handler, path by path\<close>

lemma TemperatureHandler_span_invalid:
  assumes "\<not> IsValidCEP (Query_Get r ''cep'')"
  shows "fst (TemperatureHandler_span T w r st) =
           \<lparr> Code = 422, HeaderMap = [], Body_String = ''invalid zipcode'', wroteHeader = True \<rparr>"
    and "snd (snd (TemperatureHandler_span T w r st)) = snd st"
  using assms
  by (simp_all add: TemperatureHandler_span_def Let_def writer_defs status_defs)

lemma TemperatureHandler_span_no_city:
  assumes "IsValidCEP (Query_Get r ''cep'')" and "city_returned w (Query_Get r ''cep'') = Inl err"
  shows "fst (TemperatureHandler_span T w r st) =
           \<lparr> Code = 404, HeaderMap = [], Body_String = ''can not find zipcode'', wroteHeader = True \<rparr>"
    and "snd (snd (TemperatureHandler_span T w r st)) = snd st @ city_requests w (Query_Get r ''cep'')"
  using assms
  by (simp_all add: TemperatureHandler_span_def Let_def split_beta
        GetCityFromCEP_span_returns GetCityFromCEP_span_sends writer_defs status_defs)

lemma TemperatureHandler_span_no_temperature:
  assumes "IsValidCEP (Query_Get r ''cep'')" and "city_returned w (Query_Get r ''cep'') = Inr city"
    and "temperature_returned w city = Inl err"
  shows "fst (TemperatureHandler_span T w r st) =
           \<lparr> Code = 500, HeaderMap = [], Body_String = ''error getting temperature'',
             wroteHeader = True \<rparr>"
    and "snd (snd (TemperatureHandler_span T w r st)) =
           snd st @ city_requests w (Query_Get r ''cep'') @ temperature_requests w city"
  using assms
  by (simp_all add: TemperatureHandler_span_def Let_def split_beta
        GetCityFromCEP_span_returns GetCityFromCEP_span_sends
        GetTemperature_span_returns GetTemperature_span_sends writer_defs status_defs)

lemma TemperatureHandler_span_ok:
  assumes "IsValidCEP (Query_Get r ''cep'')" and "city_returned w (Query_Get r ''cep'') = Inr city"
    and "temperature_returned w city = Inr tempC"
  shows "fst (TemperatureHandler_span T w r st) =
           \<lparr> Code = 200, HeaderMap = [(''Content-Type'', ''application/json'')],
             Body_String =
               (if supported ((ConvertTemperatures (FMA w) tempC)\<lparr> City := city \<rparr>)
                then Encode_Temperature w ((ConvertTemperatures (FMA w) tempC)\<lparr> City := city \<rparr>)
                else ''''),
             wroteHeader = True \<rparr>"
    and "snd (snd (TemperatureHandler_span T w r st)) =
           snd st @ city_requests w (Query_Get r ''cep'') @ temperature_requests w city"
  using assms
  by (simp_all add: TemperatureHandler_span_def Let_def split_beta
        GetCityFromCEP_span_returns GetCityFromCEP_span_sends
        GetTemperature_span_returns GetTemperature_span_sends writer_defs status_defs Encode_def)

text \<open>The paths together: response and requests of the traced handler in terms of what
  the clients return in this environment.\<close>

lemma TemperatureHandler_span_writes:
  "fst (TemperatureHandler_span T w r st) =
     (if \<not> IsValidCEP (Query_Get r ''cep'')
      then \<lparr> Code = 422, HeaderMap = [], Body_String = ''invalid zipcode'', wroteHeader = True \<rparr>
      else
        (case city_returned w (Query_Get r ''cep'') of
           Inl err \<Rightarrow>
             \<lparr> Code = 404, HeaderMap = [], Body_String = ''can not find zipcode'', wroteHeader = True \<rparr>
         | Inr city \<Rightarrow>
             (case temperature_returned w city of
                Inl err \<Rightarrow>
                  \<lparr> Code = 500, HeaderMap = [], Body_String = ''error getting temperature'',
                    wroteHeader = True \<rparr>
              | Inr tempC \<Rightarrow>
                  \<lparr> Code = 200, HeaderMap = [(''Content-Type'', ''application/json'')],
                    Body_String =
               (if supported ((ConvertTemperatures (FMA w) tempC)\<lparr> City := city \<rparr>)
                then Encode_Temperature w ((ConvertTemperatures (FMA w) tempC)\<lparr> City := city \<rparr>)
                else ''''),
                    wroteHeader = True \<rparr>)))"
proof (cases "IsValidCEP (Query_Get r ''cep'')")
  case False
  then show ?thesis by (simp add: TemperatureHandler_span_invalid(1))
next
  case valid: True
  show ?thesis
  proof (cases "city_returned w (Query_Get r ''cep'')")
    case (Inl err)
    with valid show ?thesis by (simp add: TemperatureHandler_span_no_city(1))
  next
    case city: (Inr city)
    show ?thesis
    proof (cases "temperature_returned w city")
      case (Inl err)
      with valid city show ?thesis by (simp add: TemperatureHandler_span_no_temperature(1))
    next
      case (Inr tempC)
      with valid city show ?thesis by (simp add: TemperatureHandler_span_ok(1))
    qed
  qed
qed

lemma TemperatureHandler_span_sends_all:
  "snd (snd (TemperatureHandler_span T w r st)) =
     (if \<not> IsValidCEP (Query_Get r ''cep'') then snd st
      else
        (case city_returned w (Query_Get r ''cep'') of
           Inl err \<Rightarrow> snd st @ city_requests w (Query_Get r ''cep'')
         | Inr city \<Rightarrow>
             snd st @ city_requests w (Query_Get r ''cep'') @ temperature_requests w city))"
proof (cases "IsValidCEP (Query_Get r ''cep'')")
  case False
  then show ?thesis by (simp add: TemperatureHandler_span_invalid(2))
next
  case valid: True
  show ?thesis
  proof (cases "city_returned w (Query_Get r ''cep'')")
    case (Inl err)
    with valid show ?thesis by (simp add: TemperatureHandler_span_no_city(2))
  next
    case city: (Inr city)
    show ?thesis
    proof (cases "temperature_returned w city")
      case (Inl err)
      with valid city show ?thesis by (simp add: TemperatureHandler_span_no_temperature(2))
    next
      case (Inr tempC)
      with valid city show ?thesis by (simp add: TemperatureHandler_span_ok(2))
    qed
  qed
qed

subsection \<open>The handler without tracing, path by path\<close>

lemma TemperatureHandler_invalid:
  assumes "\<not> IsValidCEP (Query_Get r ''cep'')"
  shows "fst (TemperatureHandler w r sent) =
           \<lparr> Code = 422, HeaderMap = [], Body_String = ''invalid zipcode'', wroteHeader = True \<rparr>"
    and "snd (TemperatureHandler w r sent) = sent"
  using assms
  by (simp_all add: TemperatureHandler_def Let_def writer_defs status_defs)

lemma TemperatureHandler_no_city:
  assumes "IsValidCEP (Query_Get r ''cep'')"
    and "fst (GetCityFromCEP w (Query_Get r ''cep'') sent') = Inl err"
  shows "fst (TemperatureHandler w r sent) =
           \<lparr> Code = 404, HeaderMap = [], Body_String = ''can not find zipcode'', wroteHeader = True \<rparr>"
    and "snd (TemperatureHandler w r sent) = sent @ city_requests w (Query_Get r ''cep'')"
proof -
  have "fst (GetCityFromCEP w (Query_Get r ''cep'') sent) = Inl err"
    using assms(2) GetCityFromCEP_any_log [of w "Query_Get r ''cep''" sent sent'] by simp
  then show "fst (TemperatureHandler w r sent) =
           \<lparr> Code = 404, HeaderMap = [], Body_String = ''can not find zipcode'', wroteHeader = True \<rparr>"
    and "snd (TemperatureHandler w r sent) = sent @ city_requests w (Query_Get r ''cep'')"
    using assms(1)
    by (simp_all add: TemperatureHandler_def Let_def split_beta GetCityFromCEP_sends
          writer_defs status_defs)
qed

lemma TemperatureHandler_no_temperature:
  assumes "IsValidCEP (Query_Get r ''cep'')"
    and "fst (GetCityFromCEP w (Query_Get r ''cep'') sent') = Inr city"
    and "temperature_returned w city = Inl err"
  shows "fst (TemperatureHandler w r sent) =
           \<lparr> Code = 500, HeaderMap = [], Body_String = ''error getting temperature'',
             wroteHeader = True \<rparr>"
    and "snd (TemperatureHandler w r sent) =
           sent @ city_requests w (Query_Get r ''cep'') @ temperature_requests w city"
proof -
  have "fst (GetCityFromCEP w (Query_Get r ''cep'') sent) = Inr city"
    using assms(2) GetCityFromCEP_any_log [of w "Query_Get r ''cep''" sent sent'] by simp
  then show "fst (TemperatureHandler w r sent) =
           \<lparr> Code = 500, HeaderMap = [], Body_String = ''error getting temperature'',
             wroteHeader = True \<rparr>"
    and "snd (TemperatureHandler w r sent) =
           sent @ city_requests w (Query_Get r ''cep'') @ temperature_requests w city"
    using assms(1,3)
    by (simp_all add: TemperatureHandler_def Let_def split_beta GetCityFromCEP_sends
          GetTemperature_returns GetTemperature_sends writer_defs status_defs)
qed

lemma TemperatureHandler_ok:
  assumes "IsValidCEP (Query_Get r ''cep'')"
    and "fst (GetCityFromCEP w (Query_Get r ''cep'') sent') = Inr city"
    and "temperature_returned w city = Inr tempC"
  shows "fst (TemperatureHandler w r sent) =
           \<lparr> Code = 200, HeaderMap = [(''Content-Type'', ''application/json'')],
             Body_String =
               (if supported ((ConvertTemperatures (FMA w) tempC)\<lparr> City := city \<rparr>)
                then Encode_Temperature w ((ConvertTemperatures (FMA w) tempC)\<lparr> City := city \<rparr>)
                else ''''),
             wroteHeader = True \<rparr>"
    and "snd (TemperatureHandler w r sent) =
           sent @ city_requests w (Query_Get r ''cep'') @ temperature_requests w city"
proof -
  have "fst (GetCityFromCEP w (Query_Get r ''cep'') sent) = Inr city"
    using assms(2) GetCityFromCEP_any_log [of w "Query_Get r ''cep''" sent sent'] by simp
  then show "fst (TemperatureHandler w r sent) =
           \<lparr> Code = 200, HeaderMap = [(''Content-Type'', ''application/json'')],
             Body_String =
               (if supported ((ConvertTemperatures (FMA w) tempC)\<lparr> City := city \<rparr>)
                then Encode_Temperature w ((ConvertTemperatures (FMA w) tempC)\<lparr> City := city \<rparr>)
                else ''''),
             wroteHeader = True \<rparr>"
    and "snd (TemperatureHandler w r sent) =
           sent @ city_requests w (Query_Get r ''cep'') @ temperature_requests w city"
    using assms(1,3)
    by (simp_all add: TemperatureHandler_def Let_def split_beta GetCityFromCEP_sends
          GetTemperature_returns GetTemperature_sends writer_defs status_defs Encode_def)
qed

subsection \<open>The outcomes\<close>

text \<open>
  The response of \<open>GET /temperature\<close> is decided by the first stage that fails: 422
  for a malformed postal code, otherwise 404 if the geocode client returns an error,
  otherwise 500 if the weather client returns an error. The error values \<open>err\<close> do not
  occur in the response. Otherwise the status is 200, and the body is the JSON encoding
  of the report if its three numbers are finite, and empty if one is not. The clients'
  results may be taken from any run of the clients in the same environment.
\<close>

lemma TemperatureHandler_outcomes:
  "fst (TemperatureHandler_span T w r st) =
     (if \<not> IsValidCEP (Query_Get r ''cep'')
      then \<lparr> Code = 422, HeaderMap = [], Body_String = ''invalid zipcode'', wroteHeader = True \<rparr>
      else
        (case fst (GetCityFromCEP_span T1 w ctx1 (Query_Get r ''cep'') sp1 st1) of
           Inl err \<Rightarrow>
             \<lparr> Code = 404, HeaderMap = [], Body_String = ''can not find zipcode'', wroteHeader = True \<rparr>
         | Inr city \<Rightarrow>
             (case fst (GetTemperature_span T2 w ctx2 city sp2 st2) of
                Inl err \<Rightarrow>
                  \<lparr> Code = 500, HeaderMap = [], Body_String = ''error getting temperature'',
                    wroteHeader = True \<rparr>
              | Inr tempC \<Rightarrow>
                  \<lparr> Code = 200, HeaderMap = [(''Content-Type'', ''application/json'')],
                    Body_String =
               (if supported ((ConvertTemperatures (FMA w) tempC)\<lparr> City := city \<rparr>)
                then Encode_Temperature w ((ConvertTemperatures (FMA w) tempC)\<lparr> City := city \<rparr>)
                else ''''),
                    wroteHeader = True \<rparr>)))
   \<and> fst (TemperatureHandler w r sent) =
     (if \<not> IsValidCEP (Query_Get r ''cep'')
      then \<lparr> Code = 422, HeaderMap = [], Body_String = ''invalid zipcode'', wroteHeader = True \<rparr>
      else
        (case fst (GetCityFromCEP w (Query_Get r ''cep'') sent1) of
           Inl err \<Rightarrow>
             \<lparr> Code = 404, HeaderMap = [], Body_String = ''can not find zipcode'', wroteHeader = True \<rparr>
         | Inr city \<Rightarrow>
             (case fst (GetTemperature w city sent2) of
                Inl err \<Rightarrow>
                  \<lparr> Code = 500, HeaderMap = [], Body_String = ''error getting temperature'',
                    wroteHeader = True \<rparr>
              | Inr tempC \<Rightarrow>
                  \<lparr> Code = 200, HeaderMap = [(''Content-Type'', ''application/json'')],
                    Body_String =
               (if supported ((ConvertTemperatures (FMA w) tempC)\<lparr> City := city \<rparr>)
                then Encode_Temperature w ((ConvertTemperatures (FMA w) tempC)\<lparr> City := city \<rparr>)
                else ''''),
                    wroteHeader = True \<rparr>)))"
proof (cases "IsValidCEP (Query_Get r ''cep'')")
  case False
  then show ?thesis
    by (simp add: TemperatureHandler_span_invalid(1) TemperatureHandler_invalid(1))
next
  case valid: True
  have traced: "fst (TemperatureHandler_span T w r st) =
        (case city_returned w (Query_Get r ''cep'') of
           Inl err \<Rightarrow>
             \<lparr> Code = 404, HeaderMap = [], Body_String = ''can not find zipcode'', wroteHeader = True \<rparr>
         | Inr city \<Rightarrow>
             (case temperature_returned w city of
                Inl err \<Rightarrow>
                  \<lparr> Code = 500, HeaderMap = [], Body_String = ''error getting temperature'',
                    wroteHeader = True \<rparr>
              | Inr tempC \<Rightarrow>
                  \<lparr> Code = 200, HeaderMap = [(''Content-Type'', ''application/json'')],
                    Body_String =
               (if supported ((ConvertTemperatures (FMA w) tempC)\<lparr> City := city \<rparr>)
                then Encode_Temperature w ((ConvertTemperatures (FMA w) tempC)\<lparr> City := city \<rparr>)
                else ''''),
                    wroteHeader = True \<rparr>))"
    using valid by (simp add: TemperatureHandler_span_writes)
  have plain: "fst (TemperatureHandler w r sent) =
        (case fst (GetCityFromCEP w (Query_Get r ''cep'') sent1) of
           Inl err \<Rightarrow>
             \<lparr> Code = 404, HeaderMap = [], Body_String = ''can not find zipcode'', wroteHeader = True \<rparr>
         | Inr city \<Rightarrow>
             (case temperature_returned w city of
                Inl err \<Rightarrow>
                  \<lparr> Code = 500, HeaderMap = [], Body_String = ''error getting temperature'',
                    wroteHeader = True \<rparr>
              | Inr tempC \<Rightarrow>
                  \<lparr> Code = 200, HeaderMap = [(''Content-Type'', ''application/json'')],
                    Body_String =
               (if supported ((ConvertTemperatures (FMA w) tempC)\<lparr> City := city \<rparr>)
                then Encode_Temperature w ((ConvertTemperatures (FMA w) tempC)\<lparr> City := city \<rparr>)
                else ''''),
                    wroteHeader = True \<rparr>))"
  proof (cases "fst (GetCityFromCEP w (Query_Get r ''cep'') sent1)")
    case (Inl err)
    with valid show ?thesis by (simp add: TemperatureHandler_no_city(1))
  next
    case city: (Inr city)
    show ?thesis
    proof (cases "temperature_returned w city")
      case (Inl err)
      with valid city show ?thesis by (simp add: TemperatureHandler_no_temperature(1))
    next
      case (Inr tempC)
      with valid city show ?thesis by (simp add: TemperatureHandler_ok(1))
    qed
  qed
  from valid traced plain show ?thesis
    by (simp add: GetCityFromCEP_span_returns GetTemperature_span_returns GetTemperature_returns
          cong: sum.case_cong)
qed

text \<open>
  Claim C1 names four outcomes, the last being status 200 with the JSON-encoded report.
  The handlers have a fifth. The weather provider answers \<^verbatim>\<open>{"current":{"temp_c":1e308}}\<close>,
  a number that decodes to a finite \<^verbatim>\<open>float64\<close>; its Fahrenheit value overflows to
  \<open>+Inf\<close>; \<^verbatim>\<open>Encode\<close> refuses it after \<^verbatim>\<open>WriteHeader(200)\<close> and the handler drops that
  error: the client receives status 200, the JSON content type and an empty body. This
  holds for both handlers and for both kinds of compilation target.
\<close>

theorem TemperatureHandler_empty_body_on_overflow:
  \<open>fst (TemperatureHandler_span recording
          ((sample_world ''key'' (ok_response ''{"localidade":"Campinas"}'')
              (ok_response ''{"current":{"temp_c":1e308}}'') unused) \<lparr> FMA := fused \<rparr>)
          (cep_request ''13010000'') ([], []))
     = \<lparr> Code = 200, HeaderMap = [(''Content-Type'', ''application/json'')], Body_String = '''',
         wroteHeader = True \<rparr>
   \<and> fst (TemperatureHandler
          ((sample_world ''key'' (ok_response ''{"localidade":"Campinas"}'')
              (ok_response ''{"current":{"temp_c":1e308}}'') unused) \<lparr> FMA := fused \<rparr>)
          (cep_request ''13010000'') [])
     = \<lparr> Code = 200, HeaderMap = [(''Content-Type'', ''application/json'')], Body_String = '''',
         wroteHeader = True \<rparr>\<close>
proof -
  let ?w = \<open>(sample_world ''key'' (ok_response ''{"localidade":"Campinas"}'')
              (ok_response ''{"current":{"temp_c":1e308}}'') unused) \<lparr> FMA := fused \<rparr>\<close>
  have valid: "IsValidCEP (Query_Get (cep_request ''13010000'') ''cep'')"
    by (simp add: Query_Get_def cep_request_def IsValidCEP_def MatchString_cep_pattern
          eight_digits_def ascii_digit_def)
  have cep: "Query_Get (cep_request ''13010000'') ''cep'' = ''13010000''"
    by (simp add: Query_Get_def cep_request_def)
  have city: "city_returned ?w ''13010000'' = Inr ''Campinas''"
    "fst (GetCityFromCEP ?w ''13010000'' []) = Inr ''Campinas''"
    by (simp_all add: city_returned_def GetCityFromCEP_span_result GetCityFromCEP_result sample_defs)
  have temp: "temperature_returned ?w ''Campinas'' = Inr (Finite False 5010420900022432 971)"
    by (simp add: temperature_returned_def GetTemperature_span_result sample_defs)
  have unsupported:
    "\<not> supported ((ConvertTemperatures (FMA ?w) (Finite False 5010420900022432 971))
                     \<lparr> City := ''Campinas'' \<rparr>)"
    by (simp add: supported_def ConvertTemperatures_overflows IsFinite_def)
  have "fst (TemperatureHandler_span recording ?w (cep_request ''13010000'') ([], []))
     = \<lparr> Code = 200, HeaderMap = [(''Content-Type'', ''application/json'')], Body_String = '''',
         wroteHeader = True \<rparr>"
    using TemperatureHandler_span_ok(1) [of "cep_request ''13010000''" ?w "''Campinas''"
        "Finite False 5010420900022432 971" recording "([], [])"] valid city(1) temp unsupported
    by (simp only: cep if_False simp_thms)
  moreover have "fst (TemperatureHandler ?w (cep_request ''13010000'') [])
     = \<lparr> Code = 200, HeaderMap = [(''Content-Type'', ''application/json'')], Body_String = '''',
         wroteHeader = True \<rparr>"
    using TemperatureHandler_ok(1) [of "cep_request ''13010000''" ?w "[]" "''Campinas''"
        "Finite False 5010420900022432 971" "[]"] valid city(2) temp unsupported
    by (simp only: cep if_False simp_thms)
  ultimately show ?thesis by simp
qed

text \<open>With a reading of 25 degrees the same request is answered by the report.\<close>

lemma TemperatureHandler_example_report:
  \<open>fst (TemperatureHandler_span recording
          (sample_world ''key'' (ok_response ''{"localidade":"Campinas"}'')
             (ok_response ''{"current":{"temp_c":25}}'') unused)
          (cep_request ''13010000'') ([], []))
     = \<lparr> Code = 200, HeaderMap = [(''Content-Type'', ''application/json'')],
         Body_String = ''{"city":"Campinas","temp_C":25,"temp_F":77,"temp_K":298}'' @ [CHR 0x0A],
         wroteHeader = True \<rparr>\<close>
proof -
  let ?w = \<open>sample_world ''key'' (ok_response ''{"localidade":"Campinas"}'')
             (ok_response ''{"current":{"temp_c":25}}'') unused\<close>
  have valid: "IsValidCEP (Query_Get (cep_request ''13010000'') ''cep'')"
    by (simp add: Query_Get_def cep_request_def IsValidCEP_def MatchString_cep_pattern
          eight_digits_def ascii_digit_def)
  have cep: "Query_Get (cep_request ''13010000'') ''cep'' = ''13010000''"
    by (simp add: Query_Get_def cep_request_def)
  have city: "city_returned ?w ''13010000'' = Inr ''Campinas''"
    by (simp add: city_returned_def GetCityFromCEP_span_result sample_defs)
  have temp: "temperature_returned ?w ''Campinas'' = Inr (float64_of_int 25)"
    by (simp add: temperature_returned_def GetTemperature_span_result sample_defs)
  have fma: "FMA ?w = False"
    by (simp add: sample_world_def)
  have report: "(ConvertTemperatures False (float64_of_int 25)) \<lparr> City := ''Campinas'' \<rparr> =
      \<lparr> City = ''Campinas'', TempC = float64_of_int 25, TempF = float64_of_int 77,
        TempK = float64_of_int 298 \<rparr>"
    by (simp add: ConvertTemperatures_examples_unfused(4))
  have ok: "supported \<lparr> City = ''Campinas'', TempC = float64_of_int 25, TempF = float64_of_int 77,
        TempK = float64_of_int 298 \<rparr>"
    by (simp add: supported_def IsFinite_def float64_of_int_values)
  have enc: "Encode_Temperature ?w \<lparr> City = ''Campinas'', TempC = float64_of_int 25,
        TempF = float64_of_int 77, TempK = float64_of_int 298 \<rparr> =
      ''{\"city\":\"Campinas\",\"temp_C\":25,\"temp_F\":77,\"temp_K\":298}'' @ [CHR 0x0A]"
    by (simp add: sample_world_def sample_Encode_Temperature_def)
  show ?thesis
    using TemperatureHandler_span_ok(1) [of "cep_request ''13010000''" ?w "''Campinas''"
        "float64_of_int 25" recording "([], [])"] valid city temp
    by (simp only: cep fma report ok enc if_True simp_thms)
qed

subsection \<open>Fail-fast: which requests leave the orchestrator\<close>

text \<open>
  Claim C6. A request whose postal code fails validation is answered 422 with body
  \<open>invalid zipcode\<close> and nothing is sent to either provider. After a valid code, if the
  geocode client returns an error, the only request that can have left is the one to
  the directory provider: the weather provider is not contacted. If the geocode client
  succeeds, it has sent exactly its one request and the weather client adds at most its
  own one request after it. Both versions of the handler are covered.
\<close>

theorem TemperatureHandler_fail_fast:
  "(\<not> IsValidCEP (Query_Get r ''cep'') \<longrightarrow>
      fst (TemperatureHandler_span T w r st) =
        \<lparr> Code = 422, HeaderMap = [], Body_String = ''invalid zipcode'', wroteHeader = True \<rparr>
      \<and> snd (snd (TemperatureHandler_span T w r st)) = snd st
      \<and> fst (TemperatureHandler w r sent) =
        \<lparr> Code = 422, HeaderMap = [], Body_String = ''invalid zipcode'', wroteHeader = True \<rparr>
      \<and> snd (TemperatureHandler w r sent) = sent)
   \<and> (IsValidCEP (Query_Get r ''cep'')
        \<and> isl (fst (GetCityFromCEP_span T1 w ctx1 (Query_Get r ''cep'') sp1 st1)) \<longrightarrow>
      snd (snd (TemperatureHandler_span T w r st)) = snd st
      \<or> snd (snd (TemperatureHandler_span T w r st)) =
           snd st @ [\<lparr> Method = ''GET'', URL = Sprintf_UrlViaCEP (Query_Get r ''cep''), Header = [] \<rparr>])
   \<and> (IsValidCEP (Query_Get r ''cep'')
        \<and> isl (fst (GetCityFromCEP w (Query_Get r ''cep'') sent1)) \<longrightarrow>
      snd (TemperatureHandler w r sent) = sent
      \<or> snd (TemperatureHandler w r sent) =
           sent @ [\<lparr> Method = ''GET'', URL = Sprintf_UrlViaCEP (Query_Get r ''cep''), Header = [] \<rparr>])
   \<and> (IsValidCEP (Query_Get r ''cep'')
        \<and> fst (GetCityFromCEP_span T1 w ctx1 (Query_Get r ''cep'') sp1 st1) = Inr city \<longrightarrow>
      snd (snd (TemperatureHandler_span T w r st)) =
           snd st @ [\<lparr> Method = ''GET'', URL = Sprintf_UrlViaCEP (Query_Get r ''cep''), Header = [] \<rparr>]
      \<or> snd (snd (TemperatureHandler_span T w r st)) =
           snd st @ [\<lparr> Method = ''GET'', URL = Sprintf_UrlViaCEP (Query_Get r ''cep''), Header = [] \<rparr>,
                    \<lparr> Method = ''GET'',
                      URL = Sprintf_UrlWeatherAPI (Getenv w ''APIKeyWeather'') (QueryEscape w city),
                      Header = [] \<rparr>])
   \<and> (IsValidCEP (Query_Get r ''cep'')
        \<and> fst (GetCityFromCEP w (Query_Get r ''cep'') sent1) = Inr city \<longrightarrow>
      snd (TemperatureHandler w r sent) =
           sent @ [\<lparr> Method = ''GET'', URL = Sprintf_UrlViaCEP (Query_Get r ''cep''), Header = [] \<rparr>]
      \<or> snd (TemperatureHandler w r sent) =
           sent @ [\<lparr> Method = ''GET'', URL = Sprintf_UrlViaCEP (Query_Get r ''cep''), Header = [] \<rparr>,
                  \<lparr> Method = ''GET'',
                    URL = Sprintf_UrlWeatherAPI (Getenv w ''APIKeyWeather'') (QueryEscape w city),
                    Header = [] \<rparr>])"
proof (intro conjI impI; (elim conjE)?)
  assume "\<not> IsValidCEP (Query_Get r ''cep'')"
  then show "fst (TemperatureHandler_span T w r st) =
        \<lparr> Code = 422, HeaderMap = [], Body_String = ''invalid zipcode'', wroteHeader = True \<rparr>"
    and "snd (snd (TemperatureHandler_span T w r st)) = snd st"
    and "fst (TemperatureHandler w r sent) =
        \<lparr> Code = 422, HeaderMap = [], Body_String = ''invalid zipcode'', wroteHeader = True \<rparr>"
    and "snd (TemperatureHandler w r sent) = sent"
    by (simp_all add: TemperatureHandler_span_invalid TemperatureHandler_invalid)
next
  assume valid: "IsValidCEP (Query_Get r ''cep'')"
    and "isl (fst (GetCityFromCEP_span T1 w ctx1 (Query_Get r ''cep'') sp1 st1))"
  then obtain err where "city_returned w (Query_Get r ''cep'') = Inl err"
    by (auto simp: GetCityFromCEP_span_returns isl_def)
  with valid have "snd (snd (TemperatureHandler_span T w r st)) =
      snd st @ city_requests w (Query_Get r ''cep'')"
    by (rule TemperatureHandler_span_no_city(2))
  then show "snd (snd (TemperatureHandler_span T w r st)) = snd st
      \<or> snd (snd (TemperatureHandler_span T w r st)) =
           snd st @ [\<lparr> Method = ''GET'', URL = Sprintf_UrlViaCEP (Query_Get r ''cep''), Header = [] \<rparr>]"
    using city_requests_cases [of w "Query_Get r ''cep''"] by auto
next
  assume valid: "IsValidCEP (Query_Get r ''cep'')"
    and "isl (fst (GetCityFromCEP w (Query_Get r ''cep'') sent1))"
  then obtain err where "fst (GetCityFromCEP w (Query_Get r ''cep'') sent1) = Inl err"
    by (auto simp: isl_def)
  with valid have "snd (TemperatureHandler w r sent) = sent @ city_requests w (Query_Get r ''cep'')"
    by (rule TemperatureHandler_no_city(2))
  then show "snd (TemperatureHandler w r sent) = sent
      \<or> snd (TemperatureHandler w r sent) =
           sent @ [\<lparr> Method = ''GET'', URL = Sprintf_UrlViaCEP (Query_Get r ''cep''), Header = [] \<rparr>]"
    using city_requests_cases [of w "Query_Get r ''cep''"] by auto
next
  assume valid: "IsValidCEP (Query_Get r ''cep'')"
    and "fst (GetCityFromCEP_span T1 w ctx1 (Query_Get r ''cep'') sp1 st1) = Inr city"
  then have city: "city_returned w (Query_Get r ''cep'') = Inr city"
    by (simp add: GetCityFromCEP_span_returns)
  have "snd (snd (TemperatureHandler_span T w r st)) =
      snd st @ city_requests w (Query_Get r ''cep'') @ temperature_requests w city"
  proof (cases "temperature_returned w city")
    case (Inl err)
    with valid city show ?thesis by (rule TemperatureHandler_span_no_temperature(2))
  next
    case (Inr tempC)
    with valid city show ?thesis by (rule TemperatureHandler_span_ok(2))
  qed
  then show "snd (snd (TemperatureHandler_span T w r st)) =
           snd st @ [\<lparr> Method = ''GET'', URL = Sprintf_UrlViaCEP (Query_Get r ''cep''), Header = [] \<rparr>]
      \<or> snd (snd (TemperatureHandler_span T w r st)) =
           snd st @ [\<lparr> Method = ''GET'', URL = Sprintf_UrlViaCEP (Query_Get r ''cep''), Header = [] \<rparr>,
                    \<lparr> Method = ''GET'',
                      URL = Sprintf_UrlWeatherAPI (Getenv w ''APIKeyWeather'') (QueryEscape w city),
                      Header = [] \<rparr>]"
    using city_requests_after_success [OF city] temperature_requests_cases [of w city] by auto
next
  assume valid: "IsValidCEP (Query_Get r ''cep'')"
    and city: "fst (GetCityFromCEP w (Query_Get r ''cep'') sent1) = Inr city"
  have sent_city:
    "city_requests w (Query_Get r ''cep'') =
       [\<lparr> Method = ''GET'', URL = Sprintf_UrlViaCEP (Query_Get r ''cep''), Header = [] \<rparr>]"
    using city
    by (simp add: city_requests_def GetCityFromCEP_span_sent GetCityFromCEP_result
          NewRequestWithContext_def split: option.splits)
  have "snd (TemperatureHandler w r sent) =
      sent @ city_requests w (Query_Get r ''cep'') @ temperature_requests w city"
  proof (cases "temperature_returned w city")
    case (Inl err)
    with valid city show ?thesis by (rule TemperatureHandler_no_temperature(2))
  next
    case (Inr tempC)
    with valid city show ?thesis by (rule TemperatureHandler_ok(2))
  qed
  then show "snd (TemperatureHandler w r sent) =
           sent @ [\<lparr> Method = ''GET'', URL = Sprintf_UrlViaCEP (Query_Get r ''cep''), Header = [] \<rparr>]
      \<or> snd (TemperatureHandler w r sent) =
           sent @ [\<lparr> Method = ''GET'', URL = Sprintf_UrlViaCEP (Query_Get r ''cep''), Header = [] \<rparr>,
                  \<lparr> Method = ''GET'',
                    URL = Sprintf_UrlWeatherAPI (Getenv w ''APIKeyWeather'') (QueryEscape w city),
                    Header = [] \<rparr>]"
    using sent_city temperature_requests_cases [of w city] by auto
qed

text \<open>
  The specification's example: the seven-digit code \<open>1234567\<close> is answered 422 and no
  request is sent, although both providers would answer. And a code the directory
  provider does not know is answered 404 after the one request to that provider.
\<close>

theorem TemperatureHandler_fail_fast_witness:
  \<open>\<not> IsValidCEP (Query_Get (cep_request ''1234567'') ''cep'')
   \<and> fst (TemperatureHandler_span recording
          (sample_world ''key'' (ok_response ''{"localidade":"Campinas"}'')
             (ok_response ''{"current":{"temp_c":25}}'') unused)
          (cep_request ''1234567'') ([], []))
     = \<lparr> Code = 422, HeaderMap = [], Body_String = ''invalid zipcode'', wroteHeader = True \<rparr>
   \<and> snd (snd (TemperatureHandler_span recording
          (sample_world ''key'' (ok_response ''{"localidade":"Campinas"}'')
             (ok_response ''{"current":{"temp_c":25}}'') unused)
          (cep_request ''1234567'') ([], []))) = []
   \<and> snd (TemperatureHandler
          (sample_world ''key'' (ok_response ''{"localidade":"Campinas"}'')
             (ok_response ''{"current":{"temp_c":25}}'') unused)
          (cep_request ''1234567'') []) = []
   \<and> IsValidCEP (Query_Get (cep_request ''99999999'') ''cep'')
   \<and> length (snd (TemperatureHandler
          (sample_world ''key'' (ok_response ''{"erro":true}'')
             (ok_response ''{"current":{"temp_c":25}}'') unused)
          (cep_request ''99999999'') [])) \<le> 1\<close>
proof -
  let ?w = \<open>sample_world ''key'' (ok_response ''{"localidade":"Campinas"}'')
             (ok_response ''{"current":{"temp_c":25}}'') unused\<close>
  let ?w' = \<open>sample_world ''key'' (ok_response ''{"erro":true}'')
             (ok_response ''{"current":{"temp_c":25}}'') unused\<close>
  have invalid: "\<not> IsValidCEP (Query_Get (cep_request ''1234567'') ''cep'')"
    by (simp add: Query_Get_def cep_request_def IsValidCEP_def MatchString_cep_pattern
          eight_digits_def)
  have valid: "IsValidCEP (Query_Get (cep_request ''99999999'') ''cep'')"
    by (simp add: Query_Get_def cep_request_def IsValidCEP_def MatchString_cep_pattern
          eight_digits_def ascii_digit_def)
  have failed: "isl (fst (GetCityFromCEP ?w' (Query_Get (cep_request ''99999999'') ''cep'') []))"
    by (simp add: GetCityFromCEP_result Query_Get_def sample_defs)
  note a = TemperatureHandler_fail_fast
    [of "cep_request ''1234567''" recording ?w "([], [])" "[]", THEN conjunct1, rule_format, OF invalid]
  note b = TemperatureHandler_fail_fast
    [of "cep_request ''99999999''" recording ?w' "([], [])" "[]" noop "()" "()" "((), [])" "[]",
     THEN conjunct2, THEN conjunct2, THEN conjunct1, rule_format, OF conjI [OF valid failed]]
  have "length (snd (TemperatureHandler ?w' (cep_request ''99999999'') [])) \<le> 1"
    using b by auto
  with a invalid valid show ?thesis by simp
qed

subsection \<open>Tracing does not reach the result\<close>

text \<open>
  Claim C9. Take two runs in the same environment on the same input, with different
  tracing backends (one may record, the other lose every operation), different
  contexts, different spans and different backend states. \<open>GetCityFromCEP\<close> returns the
  same value or error in both, and the handler writes the same status, headers and
  body in both. Started from the same log, both runs also send the same requests.
\<close>

theorem tracing_does_not_affect_the_outcome:
  "fst (GetCityFromCEP_span T w ctx cep sp st) = fst (GetCityFromCEP_span T' w ctx' cep sp' st')
   \<and> fst (TemperatureHandler_span T w r st) = fst (TemperatureHandler_span T' w r st')
   \<and> snd (snd (GetCityFromCEP_span T w ctx cep sp (t, sent))) =
       snd (snd (GetCityFromCEP_span T' w ctx' cep sp' (t', sent)))
   \<and> snd (snd (TemperatureHandler_span T w r (t, sent))) =
       snd (snd (TemperatureHandler_span T' w r (t', sent)))"
proof (intro conjI)
  show "fst (GetCityFromCEP_span T w ctx cep sp st) = fst (GetCityFromCEP_span T' w ctx' cep sp' st')"
    by (simp only: GetCityFromCEP_span_returns)
  show "snd (snd (GetCityFromCEP_span T w ctx cep sp (t, sent))) =
       snd (snd (GetCityFromCEP_span T' w ctx' cep sp' (t', sent)))"
    by (simp add: GetCityFromCEP_span_sends)
  show "fst (TemperatureHandler_span T w r st) = fst (TemperatureHandler_span T' w r st')"
    by (simp only: TemperatureHandler_span_writes [of T w r st]
          TemperatureHandler_span_writes [of T' w r st'])
  show "snd (snd (TemperatureHandler_span T w r (t, sent))) =
       snd (snd (TemperatureHandler_span T' w r (t', sent)))"
    by (simp only: TemperatureHandler_span_sends_all [of T w r "(t, sent)"]
          TemperatureHandler_span_sends_all [of T' w r "(t', sent)"] snd_conv)
qed

theorem tracing_does_not_affect_the_outcome_witness:
  \<open>fst (TemperatureHandler_span recording
          (sample_world ''key'' (ok_response ''{"erro":true}'') unused unused)
          (cep_request ''99999999'') ([], []))
     = fst (TemperatureHandler_span noop
          (sample_world ''key'' (ok_response ''{"erro":true}'') unused unused)
          (cep_request ''99999999'') ((), []))
   \<and> fst (GetCityFromCEP_span recording
          (sample_world ''key'' (ok_response ''{"erro":true}'') unused unused)
          [] ''99999999'' 0 ([], []))
     = fst (GetCityFromCEP_span noop
          (sample_world ''key'' (ok_response ''{"erro":true}'') unused unused)
          () ''99999999'' () ((), []))\<close>
  using tracing_does_not_affect_the_outcome
    [of recording \<open>sample_world ''key'' (ok_response ''{"erro":true}'') unused unused\<close>
        "[]" "''99999999''" 0 "([], [])" noop "()" "()" "((), [])" "cep_request ''99999999''"]
  by simp

text \<open>What the recording backend holds after the rejected request of the example, while
  the response is the one every backend gives.\<close>

lemma recorded_spans_example:
  "fst (snd (TemperatureHandler_span recording w (cep_request ''1234567'') ([], []))) =
     [Started 0 ''temperature-handler'',
      Attributes 0 [attribute_String ''cep'' ''1234567''],
      StatusSet 0 codes_Error ''invalid zipcode'',
      Attributes 0 [attribute_Bool ''valid_cep'' False],
      Ended 0]"
  by (simp add: TemperatureHandler_span_def Let_def recording_def Query_Get_def cep_request_def
        IsValidCEP_def MatchString_cep_pattern eight_digits_def)

section \<open>The gateway's third outcome\<close>

text \<open>
  What the gateway hands to the network, from the inputs: nothing until the body is
  decoded, the code is valid, the service URL is set and the request is built; then the
  one request built from the URL, with the headers that the propagator injects for the
  context of the span \<open>call-service-b\<close>. \<open>ctx1\<close>, \<open>sp1\<close>, \<open>t1\<close> and \<open>ctx2\<close>, \<open>sp2\<close>, \<open>t2\<close>
  name what the backend returns when the two spans are started.
\<close>

lemma handleCEPRequest_sends:
  assumes "Decode_CEPRequest w (in_Body r) \<lparr> CEP = '''' \<rparr> = Inr req"
    and "validateCEP (CEP req)" and "Getenv w ''SERVICE_B_URL'' \<noteq> ''''"
    and "Start T (Background T) ''validate-cep'' (fst st) = ((ctx1, sp1), t1)"
    and "Start T ctx1 ''call-service-b''
           (End T sp1 (SetAttributes T sp1 [attribute_String ''cep'' (CEP req)] t1))
         = ((ctx2, sp2), t2)"
    and "NewRequestWithContext w ''GET''
           (Sprintf_temperature_url (Getenv w ''SERVICE_B_URL'')
              (ReplaceAll (ReplaceAll (CEP req) ''-'' '''') '' '' '''')) = Inr built"
  shows "snd (snd (handleCEPRequest T w r st)) =
           snd st @ [built\<lparr> Header := Inject T ctx2 (Header built) \<rparr>]"
  using assms
  by (simp add: handleCEPRequest_def Let_def Do_def split_beta
        del: ReplaceAll.simps split: sum.splits)

text \<open>
  Claim C10. Once the body is decoded, the code is valid and the service URL is set,
  the gateway answers 500 with the JSON body \<open>{"message":"internal server error"}\<close> in
  each of three cases: the forward request cannot be built; it is built and the call
  fails with a transport error; or the call is answered and reading the body of the
  answer fails. In the first case nothing has been sent, in the other two exactly the
  one forward request. \<open>ctx1\<close>, \<open>sp1\<close>, \<open>t1\<close> and \<open>ctx2\<close>, \<open>sp2\<close>, \<open>t2\<close> name what the
  backend returns when the two spans are started.
\<close>

theorem handleCEPRequest_internal_server_error:
  \<open>Decode_CEPRequest w (in_Body r) \<lparr> CEP = '''' \<rparr> = Inr req
     \<and> validateCEP (CEP req) \<and> Getenv w ''SERVICE_B_URL'' \<noteq> ''''
     \<and> Start T (Background T) ''validate-cep'' (fst st) = ((ctx1, sp1), t1)
     \<and> Start T ctx1 ''call-service-b''
           (End T sp1 (SetAttributes T sp1 [attribute_String ''cep'' (CEP req)] t1))
         = ((ctx2, sp2), t2)
     \<and> url = Sprintf_temperature_url (Getenv w ''SERVICE_B_URL'')
                (ReplaceAll (ReplaceAll (CEP req) ''-'' '''') '' '' '''')
   \<longrightarrow>
     (NewRequestWithContext w ''GET'' url = Inl err
      \<longrightarrow> fst (handleCEPRequest T w r st) =
            Returned \<lparr> Code = 500, HeaderMap = [(''Content-Type'', ''application/json'')],
                       Body_String = ''{"message":"internal server error"}'' @ [CHR 0x0A],
                       wroteHeader = True \<rparr>
          \<and> snd (snd (handleCEPRequest T w r st)) = snd st)
     \<and> (NewRequestWithContext w ''GET'' url = Inr built
        \<and> RoundTrip w (built\<lparr> Header := Inject T ctx2 (Header built) \<rparr>) = Inl err
      \<longrightarrow> fst (handleCEPRequest T w r st) =
            Returned \<lparr> Code = 500, HeaderMap = [(''Content-Type'', ''application/json'')],
                       Body_String = ''{"message":"internal server error"}'' @ [CHR 0x0A],
                       wroteHeader = True \<rparr>
          \<and> snd (snd (handleCEPRequest T w r st)) =
              snd st @ [built\<lparr> Header := Inject T ctx2 (Header built) \<rparr>])
     \<and> (NewRequestWithContext w ''GET'' url = Inr built
        \<and> RoundTrip w (built\<lparr> Header := Inject T ctx2 (Header built) \<rparr>) = Inr resp
        \<and> ReadAll (Body resp) = Inl err
      \<longrightarrow> fst (handleCEPRequest T w r st) =
            Returned \<lparr> Code = 500, HeaderMap = [(''Content-Type'', ''application/json'')],
                       Body_String = ''{"message":"internal server error"}'' @ [CHR 0x0A],
                       wroteHeader = True \<rparr>
          \<and> snd (snd (handleCEPRequest T w r st)) =
              snd st @ [built\<lparr> Header := Inject T ctx2 (Header built) \<rparr>])\<close>
  by (simp add: handleCEPRequest_def Let_def Do_def split_beta writer_defs status_defs
        Encode_ErrorResponse_def
      del: ReplaceAll.simps)

theorem handleCEPRequest_internal_server_error_witness:
  \<open>fst (handleCEPRequest noop
          ((sample_world ''key'' unused unused unused)
             \<lparr> url_Parse := (\<lambda>url. Some (Errorf ''invalid control character in URL'')) \<rparr>)
          (post_request ''{"cep":"13010-000"}'') ((), []))
     = Returned \<lparr> Code = 500, HeaderMap = [(''Content-Type'', ''application/json'')],
                  Body_String = ''{"message":"internal server error"}'' @ [CHR 0x0A],
                  wroteHeader = True \<rparr>
   \<and> fst (handleCEPRequest noop
          (sample_world ''key'' unused unused (Inl (Errorf ''connection refused'')))
          (post_request ''{"cep":"13010-000"}'') ((), []))
     = Returned \<lparr> Code = 500, HeaderMap = [(''Content-Type'', ''application/json'')],
                  Body_String = ''{"message":"internal server error"}'' @ [CHR 0x0A],
                  wroteHeader = True \<rparr>
   \<and> snd (snd (handleCEPRequest noop
          (sample_world ''key'' unused unused (Inl (Errorf ''connection refused'')))
          (post_request ''{"cep":"13010-000"}'') ((), [])))
     = [\<lparr> Method = ''GET'', URL = ''http://b/temperature?cep=13010000'', Header = [] \<rparr>]
   \<and> fst (handleCEPRequest noop
          (sample_world ''key'' unused unused
             (Inr \<lparr> StatusCode = 200, Status = ''200 OK'',
                    Body = Reader ''{"city":'' (Some (Errorf ''unexpected EOF'')) \<rparr>))
          (post_request ''{"cep":"13010-000"}'') ((), []))
     = Returned \<lparr> Code = 500, HeaderMap = [(''Content-Type'', ''application/json'')],
                  Body_String = ''{"message":"internal server error"}'' @ [CHR 0x0A],
                  wroteHeader = True \<rparr>\<close>
proof -
  let ?r = \<open>post_request ''{"cep":"13010-000"}''\<close>
  let ?req = "\<lparr> CEP = ''13010-000'' \<rparr>"
  let ?w1 = "(sample_world ''key'' unused unused unused)
             \<lparr> url_Parse := (\<lambda>url. Some (Errorf ''invalid control character in URL'')) \<rparr>"
  let ?w2 = "sample_world ''key'' unused unused (Inl (Errorf ''connection refused''))"
  let ?resp = \<open>\<lparr> StatusCode = 200, Status = ''200 OK'',
                  Body = Reader ''{"city":'' (Some (Errorf ''unexpected EOF'')) \<rparr>\<close>
  let ?w3 = "sample_world ''key'' unused unused (Inr ?resp)"
  let ?url = "''http://b/temperature?cep=13010000''"
  let ?built = "\<lparr> Method = ''GET'', URL = ?url, Header = [] \<rparr>"
  have valid: "validateCEP ''13010-000''"
    by (simp add: validateCEP_filter eight_digits_def ascii_digit_def)
  have clean: "ReplaceAll (ReplaceAll ''13010-000'' ''-'' '''') '' '' '''' = ''13010000''"
    by (simp add: ReplaceAll_byte_by_nothing del: ReplaceAll.simps)
  have common: "Decode_CEPRequest w (in_Body ?r) \<lparr> CEP = '''' \<rparr> = Inr ?req
     \<and> validateCEP (CEP ?req) \<and> Getenv w ''SERVICE_B_URL'' \<noteq> ''''
     \<and> Start noop (Background noop) ''validate-cep'' (fst ((), [])) = (((), ()), ())
     \<and> Start noop () ''call-service-b''
           (End noop () (SetAttributes noop () [attribute_String ''cep'' (CEP ?req)] ()))
         = (((), ()), ())
     \<and> ?url = Sprintf_temperature_url (Getenv w ''SERVICE_B_URL'')
                (ReplaceAll (ReplaceAll (CEP ?req) ''-'' '''') '' '' '''')"
    if "w = ?w1 \<or> w = ?w2 \<or> w = ?w3" for w
    using that valid clean
    by (auto simp add: sample_defs noop_def simp del: ReplaceAll.simps)
  have 1: "NewRequestWithContext ?w1 ''GET'' ?url = Inl (Errorf ''invalid control character in URL'')"
    by (simp add: sample_defs)
  have 2: "NewRequestWithContext ?w2 ''GET'' ?url = Inr ?built
      \<and> RoundTrip ?w2 (?built\<lparr> Header := Inject noop () (Header ?built) \<rparr>)
          = Inl (Errorf ''connection refused'')"
    by (simp add: sample_defs noop_def)
  have 3: "NewRequestWithContext ?w3 ''GET'' ?url = Inr ?built
      \<and> RoundTrip ?w3 (?built\<lparr> Header := Inject noop () (Header ?built) \<rparr>) = Inr ?resp
      \<and> ReadAll (Body ?resp) = Inl (Errorf ''unexpected EOF'')"
    by (simp add: sample_defs noop_def ReadAll_def)
  note a = handleCEPRequest_internal_server_error
    [of ?w1 ?r ?req noop "((), [])" "()" "()" "()" "()" "()" "()" ?url, rule_format,
     OF common [OF disjI1 [OF refl]], THEN conjunct1, rule_format, OF 1]
  note b = handleCEPRequest_internal_server_error
    [of ?w2 ?r ?req noop "((), [])" "()" "()" "()" "()" "()" "()" ?url _ ?built, rule_format,
     OF common [OF disjI2 [OF disjI1 [OF refl]]], THEN conjunct2, THEN conjunct1, rule_format, OF 2]
  note c = handleCEPRequest_internal_server_error
    [of ?w3 ?r ?req noop "((), [])" "()" "()" "()" "()" "()" "()" ?url _ ?built, rule_format,
     OF common [OF disjI2 [OF disjI2 [OF refl]]], THEN conjunct2, THEN conjunct2, rule_format, OF 3]
  from a b c show ?thesis by (simp add: noop_def)
qed

text \<open>The gateway's other outcomes, for comparison: the answer of the orchestrator is
  passed on with its status and its bytes; without the service URL the process exits.\<close>

lemma handleCEPRequest_passes_through:
  assumes "Decode_CEPRequest w (in_Body r) \<lparr> CEP = '''' \<rparr> = Inr req"
    and "validateCEP (CEP req)" and "Getenv w ''SERVICE_B_URL'' \<noteq> ''''"
    and "Start T (Background T) ''validate-cep'' (fst st) = ((ctx1, sp1), t1)"
    and "Start T ctx1 ''call-service-b''
           (End T sp1 (SetAttributes T sp1 [attribute_String ''cep'' (CEP req)] t1))
         = ((ctx2, sp2), t2)"
    and "NewRequestWithContext w ''GET''
           (Sprintf_temperature_url (Getenv w ''SERVICE_B_URL'')
              (ReplaceAll (ReplaceAll (CEP req) ''-'' '''') '' '' '''')) = Inr built"
    and "RoundTrip w (built\<lparr> Header := Inject T ctx2 (Header built) \<rparr>) = Inr resp"
    and "ReadAll (Body resp) = Inr bytes"
  shows "fst (handleCEPRequest T w r st) =
           Returned \<lparr> Code = StatusCode resp, HeaderMap = [(''Content-Type'', ''application/json'')],
                      Body_String = bytes, wroteHeader = True \<rparr>"
  using assms
  by (simp add: handleCEPRequest_def Let_def Do_def split_beta writer_defs status_defs
        del: ReplaceAll.simps)

lemma handleCEPRequest_rejects:
  assumes "isl (Decode_CEPRequest w (in_Body r) \<lparr> CEP = '''' \<rparr>)
           \<or> (\<exists>req. Decode_CEPRequest w (in_Body r) \<lparr> CEP = '''' \<rparr> = Inr req \<and> \<not> validateCEP (CEP req))"
  shows \<open>fst (handleCEPRequest T w r st) =
           Returned \<lparr> Code = 422, HeaderMap = [(''Content-Type'', ''application/json'')],
                      Body_String = ''{"message":"invalid zipcode"}'' @ [CHR 0x0A],
                      wroteHeader = True \<rparr>
         \<and> snd (snd (handleCEPRequest T w r st)) = snd st\<close>
  using assms
  by (auto simp add: handleCEPRequest_def Let_def writer_defs status_defs Encode_ErrorResponse_def
        isl_def
      simp del: ReplaceAll.simps)

lemma handleCEPRequest_exits:
  assumes "Decode_CEPRequest w (in_Body r) \<lparr> CEP = '''' \<rparr> = Inr req" and "validateCEP (CEP req)"
    and "Getenv w ''SERVICE_B_URL'' = ''''"
  shows "fst (handleCEPRequest T w r st) = log_Fatal ''SERVICE_B_URL environment variable not set''"
  using assms by (simp add: handleCEPRequest_def Let_def del: ReplaceAll.simps)

end
